theory Spec2Isabelle
  imports Main "HOL-Library.Word" "HOL-Library.Sublist"
begin

section \<open>JavaScript strings\<close>

text \<open>
  A JavaScript string is a sequence of UTF-16 code units. The literals of \<^verbatim>\<open>main.js\<close>
  are ASCII, so \<open>js\<close> embeds an Isabelle string literal code unit by code unit.
\<close>

type_synonym jsstring = "16 word list"

definition js :: "string \<Rightarrow> jsstring" where
  "js s = map of_char s"

text \<open>
  \<^verbatim>\<open>String.prototype.trim\<close> removes the code units that ECMAScript calls WhiteSpace or
  LineTerminator from both ends: TAB, LF, VT, FF, CR, SP, NBSP, U+1680, U+2000 to U+200A,
  LS, PS, U+202F, U+205F, U+3000 and the byte order mark.
\<close>

definition isWhiteSpace :: "16 word \<Rightarrow> bool" where
  "isWhiteSpace c =
     (c = 0x9 \<or> c = 0xA \<or> c = 0xB \<or> c = 0xC \<or> c = 0xD \<or> c = 0x20 \<or> c = 0xA0 \<or>
      c = 0x1680 \<or> (0x2000 \<le> c \<and> c \<le> 0x200A) \<or> c = 0x2028 \<or> c = 0x2029 \<or>
      c = 0x202F \<or> c = 0x205F \<or> c = 0x3000 \<or> c = 0xFEFF)"

definition trim :: "jsstring \<Rightarrow> jsstring" where
  "trim s = rev (dropWhile isWhiteSpace (rev (dropWhile isWhiteSpace s)))"

text \<open>
  \<^verbatim>\<open>haystack.includes(needle)\<close>: the needle occurs at some position of the haystack;
  the empty needle occurs in every string.
\<close>

fun String_includes :: "jsstring \<Rightarrow> jsstring \<Rightarrow> bool" where
  "String_includes [] needle = (needle = [])"
| "String_includes (c # cs) needle = (prefix needle (c # cs) \<or> String_includes cs needle)"

text \<open>
  \<^verbatim>\<open>text.split(sep)\<close> for a separator of one code unit: the pieces between the
  separators, so that a text without separator is one piece and the empty text is one
  empty piece.
\<close>

fun String_split :: "16 word \<Rightarrow> jsstring \<Rightarrow> jsstring list" where
  "String_split sep [] = [[]]"
| "String_split sep (c # cs) =
     (if c = sep then [] # String_split sep cs
      else (case String_split sep cs of
              [] \<Rightarrow> [[c]]
            | piece # pieces \<Rightarrow> (c # piece) # pieces))"

definition LF :: "16 word" where
  "LF = 0xA"

text \<open>
  The first parameter of \<^verbatim>\<open>allow\<close>, \<^verbatim>\<open>deny\<close> and \<^verbatim>\<open>reject\<close> is documented as
  \<^verbatim>\<open>string|number\<close>. A number is modelled where it is a port: a non-negative integer
  (below 10^21, where JavaScript changes to exponent notation), which a template literal
  renders as its decimal numeral.
\<close>

datatype js_value = is_Num: Num nat | Str jsstring

fun Number_toString :: "nat \<Rightarrow> jsstring" where
  "Number_toString n =
     (if n < 10 then [of_nat (48 + n)]
      else Number_toString (n div 10) @ [of_nat (48 + n mod 10)])"

declare Number_toString.simps [simp del]

fun ToString :: "js_value \<Rightarrow> jsstring" where
  "ToString (Num n) = Number_toString n"
| "ToString (Str s) = s"

text \<open>
  A parameter declared \<^verbatim>\<open>name = ''\<close>: an omitted argument (\<open>None\<close>) takes the default.
\<close>

definition default_param :: "jsstring option \<Rightarrow> jsstring \<Rightarrow> jsstring" where
  "default_param arg dflt = (case arg of None \<Rightarrow> dflt | Some v \<Rightarrow> v)"

section \<open>The executor and the file system\<close>

text \<open>
  \<^verbatim>\<open>child_process.exec\<close> hands its callback an error (or null), the standard output and
  the standard error of the command. The command runs on the machine, whose state \<open>'w\<close>
  it may change; \<^verbatim>\<open>fs.readFileSync\<close> reads a file of that machine or throws.
  Both are parameters of the model. The commands handed to \<^verbatim>\<open>exec\<close> are recorded in
  order in \<open>issued\<close>.
\<close>

record exec_out =
  failed :: bool
  stdout :: jsstring
  stderr :: jsstring

record 'w env =
  exec :: "jsstring \<Rightarrow> 'w \<Rightarrow> exec_out \<times> 'w"
  readFileSync :: "jsstring \<Rightarrow> 'w \<Rightarrow> jsstring option"

record 'w sys =
  world :: 'w
  issued :: "jsstring list"

text \<open>
  A rejected promise carries the string built by \<^verbatim>\<open>runCommand\<close>; a failed read throws
  the file system's error.
\<close>

datatype js_error = Rejected jsstring | ReadFailure jsstring

record op_result =
  res_status :: jsstring
  res_rule :: "jsstring option"
  res_action :: jsstring
  res_message :: jsstring

section \<open>UFWController\<close>

definition runCommand :: "'w env \<Rightarrow> jsstring \<Rightarrow> 'w sys \<Rightarrow> (js_error + jsstring) \<times> 'w sys" where
  "runCommand env command s =
     (case exec env command (world s) of
        (out, w') \<Rightarrow>
          (if failed out then Inl (Rejected (js ''Error: '' @ stderr out))
           else Inr (trim (stdout out)),
           \<lparr>world = w', issued = issued s @ [command]\<rparr>))"

definition status :: "'w env \<Rightarrow> 'w sys \<Rightarrow> (js_error + jsstring) \<times> 'w sys" where
  "status env s = runCommand env (js ''sudo ufw status'') s"

definition ruleExists :: "'w env \<Rightarrow> jsstring \<Rightarrow> 'w sys \<Rightarrow> (js_error + bool) \<times> 'w sys" where
  "ruleExists env rule s =
     (case status env s of
        (Inl e, s') \<Rightarrow> (Inl e, s')
      | (Inr report, s') \<Rightarrow> (Inr (String_includes report rule), s'))"

text \<open>
  The rule string of \<^verbatim>\<open>allow\<close>, \<^verbatim>\<open>deny\<close> and \<^verbatim>\<open>reject\<close> (lines 57, 77 and 216 hold the same
  template literal), and the one of \<^verbatim>\<open>allowFromIp\<close> and \<^verbatim>\<open>denyFromIp\<close> (lines 98 and 119).
  A string is truthy when it is not empty.
\<close>

definition portRule :: "js_value \<Rightarrow> jsstring \<Rightarrow> jsstring" where
  "portRule portOrService protocol =
     ToString portOrService @ (if protocol \<noteq> [] then js ''/'' @ protocol else [])"

definition ipRule :: "jsstring \<Rightarrow> jsstring \<Rightarrow> jsstring \<Rightarrow> jsstring" where
  "ipRule ip port protocol =
     js ''from '' @ ip @ (if port \<noteq> [] then js '' to any port '' @ port else [])
       @ (if protocol \<noteq> [] then js '' proto '' @ protocol else [])"

text \<open>The apostrophe of the skip message is the code unit 0x27.\<close>

definition allow ::
  "'w env \<Rightarrow> js_value \<Rightarrow> jsstring option \<Rightarrow> 'w sys \<Rightarrow> (js_error + op_result) \<times> 'w sys" where
  "allow env portOrService protocol_arg s =
     (let protocol = default_param protocol_arg [];
          rule = portRule portOrService protocol
      in case ruleExists env rule s of
           (Inl e, s1) \<Rightarrow> (Inl e, s1)
         | (Inr found, s1) \<Rightarrow>
             if \<not> found then
               (case runCommand env (js ''sudo ufw allow '' @ rule) s1 of
                  (Inl e, s2) \<Rightarrow> (Inl e, s2)
                | (Inr result, s2) \<Rightarrow>
                    (Inr \<lparr>res_status = js ''success'', res_rule = Some rule,
                          res_action = js ''allow'', res_message = result\<rparr>, s2))
             else
               (Inr \<lparr>res_status = js ''skipped'', res_rule = Some rule,
                     res_action = js ''allow'',
                     res_message = js ''Rule '' @ [0x27] @ rule @ [0x27] @ js '' already exists.''\<rparr>,
                s1))"

definition deny ::
  "'w env \<Rightarrow> js_value \<Rightarrow> jsstring option \<Rightarrow> 'w sys \<Rightarrow> (js_error + op_result) \<times> 'w sys" where
  "deny env portOrService protocol_arg s =
     (let protocol = default_param protocol_arg [];
          rule = portRule portOrService protocol
      in case ruleExists env rule s of
           (Inl e, s1) \<Rightarrow> (Inl e, s1)
         | (Inr found, s1) \<Rightarrow>
             if \<not> found then
               (case runCommand env (js ''sudo ufw deny '' @ rule) s1 of
                  (Inl e, s2) \<Rightarrow> (Inl e, s2)
                | (Inr result, s2) \<Rightarrow>
                    (Inr \<lparr>res_status = js ''success'', res_rule = Some rule,
                          res_action = js ''deny'', res_message = result\<rparr>, s2))
             else
               (Inr \<lparr>res_status = js ''skipped'', res_rule = Some rule,
                     res_action = js ''deny'',
                     res_message = js ''Rule '' @ [0x27] @ rule @ [0x27] @ js '' already exists.''\<rparr>,
                s1))"

definition allowFromIp ::
  "'w env \<Rightarrow> jsstring \<Rightarrow> jsstring option \<Rightarrow> jsstring option \<Rightarrow> 'w sys
     \<Rightarrow> (js_error + op_result) \<times> 'w sys" where
  "allowFromIp env ip port_arg protocol_arg s =
     (let port = default_param port_arg [];
          protocol = default_param protocol_arg [];
          rule = ipRule ip port protocol
      in case ruleExists env rule s of
           (Inl e, s1) \<Rightarrow> (Inl e, s1)
         | (Inr found, s1) \<Rightarrow>
             if \<not> found then
               (case runCommand env (js ''sudo ufw allow '' @ rule) s1 of
                  (Inl e, s2) \<Rightarrow> (Inl e, s2)
                | (Inr result, s2) \<Rightarrow>
                    (Inr \<lparr>res_status = js ''success'', res_rule = Some rule,
                          res_action = js ''allow'', res_message = result\<rparr>, s2))
             else
               (Inr \<lparr>res_status = js ''skipped'', res_rule = Some rule,
                     res_action = js ''allow'',
                     res_message = js ''Rule '' @ [0x27] @ rule @ [0x27] @ js '' already exists.''\<rparr>,
                s1))"

definition denyFromIp ::
  "'w env \<Rightarrow> jsstring \<Rightarrow> jsstring option \<Rightarrow> jsstring option \<Rightarrow> 'w sys
     \<Rightarrow> (js_error + op_result) \<times> 'w sys" where
  "denyFromIp env ip port_arg protocol_arg s =
     (let port = default_param port_arg [];
          protocol = default_param protocol_arg [];
          rule = ipRule ip port protocol
      in case ruleExists env rule s of
           (Inl e, s1) \<Rightarrow> (Inl e, s1)
         | (Inr found, s1) \<Rightarrow>
             if \<not> found then
               (case runCommand env (js ''sudo ufw deny '' @ rule) s1 of
                  (Inl e, s2) \<Rightarrow> (Inl e, s2)
                | (Inr result, s2) \<Rightarrow>
                    (Inr \<lparr>res_status = js ''success'', res_rule = Some rule,
                          res_action = js ''deny'', res_message = result\<rparr>, s2))
             else
               (Inr \<lparr>res_status = js ''skipped'', res_rule = Some rule,
                     res_action = js ''deny'',
                     res_message = js ''Rule '' @ [0x27] @ rule @ [0x27] @ js '' already exists.''\<rparr>,
                s1))"

definition reject ::
  "'w env \<Rightarrow> js_value \<Rightarrow> jsstring option \<Rightarrow> 'w sys \<Rightarrow> (js_error + op_result) \<times> 'w sys" where
  "reject env portOrService protocol_arg s =
     (let protocol = default_param protocol_arg [];
          rule = portRule portOrService protocol
      in case ruleExists env rule s of
           (Inl e, s1) \<Rightarrow> (Inl e, s1)
         | (Inr found, s1) \<Rightarrow>
             if \<not> found then
               (case runCommand env (js ''sudo ufw reject '' @ rule) s1 of
                  (Inl e, s2) \<Rightarrow> (Inl e, s2)
                | (Inr result, s2) \<Rightarrow>
                    (Inr \<lparr>res_status = js ''success'', res_rule = Some rule,
                          res_action = js ''reject'', res_message = result\<rparr>, s2))
             else
               (Inr \<lparr>res_status = js ''skipped'', res_rule = Some rule,
                     res_action = js ''reject'',
                     res_message = js ''Rule '' @ [0x27] @ rule @ [0x27] @ js '' already exists.''\<rparr>,
                s1))"

definition isEnabled :: "'w env \<Rightarrow> 'w sys \<Rightarrow> (js_error + bool) \<times> 'w sys" where
  "isEnabled env s =
     (case status env s of
        (Inl e, s') \<Rightarrow> (Inl e, s')
      | (Inr report, s') \<Rightarrow> (Inr (String_includes report (js ''active'')), s'))"

text \<open>
  The loop of \<^verbatim>\<open>restore\<close> over the lines of the backup file: a line whose trimmed text is
  empty is passed over, and a rejected command ends the loop with its error.
\<close>

fun restore_loop :: "'w env \<Rightarrow> jsstring list \<Rightarrow> 'w sys \<Rightarrow> (js_error + unit) \<times> 'w sys" where
  "restore_loop env [] s = (Inr (), s)"
| "restore_loop env (rule # backupRules) s =
     (if trim rule \<noteq> [] then
        (case runCommand env (js ''sudo ufw '' @ trim rule) s of
           (Inl e, s') \<Rightarrow> (Inl e, s')
         | (Inr result, s') \<Rightarrow> restore_loop env backupRules s')
      else restore_loop env backupRules s)"

definition restore ::
  "'w env \<Rightarrow> jsstring \<Rightarrow> 'w sys \<Rightarrow> (js_error + op_result) \<times> 'w sys" where
  "restore env filePath s =
     (case runCommand env (js ''sudo ufw reset && sudo ufw allow from any'') s of
        (Inl e, s1) \<Rightarrow> (Inl e, s1)
      | (Inr primed, s1) \<Rightarrow>
          (case readFileSync env filePath (world s1) of
             None \<Rightarrow> (Inl (ReadFailure filePath), s1)
           | Some text \<Rightarrow>
               (case restore_loop env (String_split LF text) s1 of
                  (Inl e, s2) \<Rightarrow> (Inl e, s2)
                | (Inr done, s2) \<Rightarrow>
                    (Inr \<lparr>res_status = js ''success'', res_rule = None,
                          res_action = js ''restore'',
                          res_message = js ''Restored from '' @ filePath @ js ''.''\<rparr>, s2))))"

text \<open>The command that \<^verbatim>\<open>restore\<close> issues first.\<close>

abbreviation priming :: jsstring where
  "priming \<equiv> js ''sudo ufw reset && sudo ufw allow from any''"

text \<open>
  For the statements about \<^verbatim>\<open>restore\<close>: the executor fails on none of the commands of a
  list when they are run one after the other from a state of the machine, and the state
  in which they leave the machine.
\<close>

fun commands_succeed :: "'w env \<Rightarrow> jsstring list \<Rightarrow> 'w \<Rightarrow> bool" where
  "commands_succeed env [] w = True"
| "commands_succeed env (command # commands) w =
     (case exec env command w of
        (out, w') \<Rightarrow> \<not> failed out \<and> commands_succeed env commands w')"

fun world_after :: "'w env \<Rightarrow> jsstring list \<Rightarrow> 'w \<Rightarrow> 'w" where
  "world_after env [] w = w"
| "world_after env (command # commands) w =
     (case exec env command w of (out, w') \<Rightarrow> world_after env commands w')"

section \<open>Machines for the examples\<close>

text \<open>
  A machine without state whose executor answers from a table of commands (a command
  that is not in the table fails) and whose files are a table of paths.
\<close>

definition scripted :: "(jsstring \<times> exec_out) list \<Rightarrow> (jsstring \<times> jsstring) list \<Rightarrow> unit env" where
  "scripted answers files =
     \<lparr>exec = (\<lambda>command w.
        (case map_of answers command of
           None \<Rightarrow> \<lparr>failed = True, stdout = [], stderr = js ''ERROR: Invalid syntax''\<rparr>
         | Some out \<Rightarrow> out, w)),
      readFileSync = (\<lambda>filePath w. map_of files filePath)\<rparr>"

definition ok :: "jsstring \<Rightarrow> exec_out" where
  "ok text = \<lparr>failed = False, stdout = text, stderr = []\<rparr>"

definition boot :: "unit sys" where
  "boot = \<lparr>world = (), issued = []\<rparr>"

text \<open>A machine with an enabled firewall that has no rules yet.\<close>

definition demo :: "unit env" where
  "demo = scripted
     [(js ''sudo ufw status'', ok (js ''Status: active'')),
      (js ''sudo ufw allow 80/tcp'', ok (js ''Rule added'' @ [LF])),
      (js ''sudo ufw deny 80/tcp'', ok (js ''Rule updated'' @ [LF])),
      (js ''sudo ufw reject 80/tcp'', ok ([LF] @ js ''Rule updated'')),
      (js ''sudo ufw allow from 10.0.0.5'', ok (js ''Rule added'' @ [LF])),
      (js ''sudo ufw deny from 10.0.0.5'', ok (js ''Rule updated'' @ [LF]))] []"

text \<open>
  The backup file of four lines, the second blank; a machine that holds it and fails
  on the command of its third line; and a machine that holds it and on which the priming
  command and the commands of the file succeed, and every other command fails.
\<close>

definition example_backup :: jsstring where
  "example_backup = js ''allow 80/tcp'' @ [LF, LF] @ js ''  deny 22  '' @ [LF] @ js ''reject 443''"

definition faulty :: "unit env" where
  "faulty = scripted
     [(priming, ok (js ''Resetting all rules to installed defaults'' @ [LF])),
      (js ''sudo ufw allow 80/tcp'', ok (js ''Rule added'' @ [LF])),
      (js ''sudo ufw deny 22'', \<lparr>failed = True, stdout = [], stderr = js ''ERROR: problem running''\<rparr>),
      (js ''sudo ufw reject 443'', ok (js ''Rule added'' @ [LF]))]
     [(js ''backup.rules'', example_backup)]"

definition intact :: "unit env" where
  "intact = scripted
     [(priming, ok (js ''Resetting all rules to installed defaults'' @ [LF])),
      (js ''sudo ufw allow 80/tcp'', ok (js ''Rule added'' @ [LF])),
      (js ''sudo ufw deny 22'', ok (js ''Rule added'' @ [LF])),
      (js ''sudo ufw reject 443'', ok (js ''Rule added'' @ [LF]))]
     [(js ''backup.rules'', example_backup)]"

section \<open>Strings and the executor\<close>

lemma String_includes_sublist: "String_includes h n = sublist n h"
proof (induction h)
  case Nil
  show ?case by (cases n) simp_all
next
  case (Cons c cs)
  show ?case by (simp add: Cons sublist_Cons_right)
qed

lemma String_includes_iff: "String_includes h n \<longleftrightarrow> (\<exists>ps ss. h = ps @ n @ ss)"
  by (simp add: String_includes_sublist sublist_def)

lemma runCommand_issued: "issued (snd (runCommand env c s)) = issued s @ [c]"
  by (simp add: runCommand_def split: prod.splits)

lemma status_issued: "status env s = (r, s') \<Longrightarrow> issued s' = issued s @ [js ''sudo ufw status'']"
  using runCommand_issued [of env "js ''sudo ufw status''" s] by (simp add: status_def)

lemma runCommand_ok:
  "\<not> failed (fst (exec env c (world s))) \<Longrightarrow>
   runCommand env c s =
     (Inr (trim (stdout (fst (exec env c (world s))))),
      \<lparr>world = snd (exec env c (world s)), issued = issued s @ [c]\<rparr>)"
  by (cases "exec env c (world s)") (simp add: runCommand_def)

lemma runCommand_failed:
  "failed (fst (exec env c (world s))) \<Longrightarrow>
   runCommand env c s =
     (Inl (Rejected (js ''Error: '' @ stderr (fst (exec env c (world s))))),
      \<lparr>world = snd (exec env c (world s)), issued = issued s @ [c]\<rparr>)"
  by (cases "exec env c (world s)") (simp add: runCommand_def)

section \<open>Rule operations\<close>

lemma ruleExists_report:
  "status env s = (Inr report, s1) \<Longrightarrow>
   ruleExists env rule s = (Inr (\<exists>ps ss. report = ps @ rule @ ss), s1)"
  by (simp add: ruleExists_def String_includes_iff)

lemma guarded_issued:
  "issued (snd (case runCommand env c s1 of
                  (Inl e, s2) \<Rightarrow> (Inl e, s2)
                | (Inr result, s2) \<Rightarrow> (Inr (f result), s2))) = issued s1 @ [c]"
  using runCommand_issued [of env c s1]
  by (cases "runCommand env c s1") (auto split: sum.splits)

lemma guarded_ok:
  "\<not> failed (fst (exec env c (world s1))) \<Longrightarrow>
   fst (case runCommand env c s1 of
          (Inl e, s2) \<Rightarrow> (Inl e, s2)
        | (Inr result, s2) \<Rightarrow> (Inr (f result), s2))
   = Inr (f (trim (stdout (fst (exec env c (world s1))))))"
  by (simp add: runCommand_ok)

text \<open>
  C1. Whenever the status report (what \<^verbatim>\<open>status()\<close> returns) contains the rendered rule
  as a substring, \<^verbatim>\<open>allow\<close>, \<^verbatim>\<open>deny\<close>, \<^verbatim>\<open>reject\<close>, \<^verbatim>\<open>allowFromIp\<close> and \<^verbatim>\<open>denyFromIp\<close>
  return the result with status "skipped" and message "Rule '<rule>' already exists.", in
  the state reached by the status query alone: that query is the only command issued.
\<close>

theorem existing_rule_is_skipped:
  assumes "status env s = (Inr report, s1)"
  shows "issued s1 = issued s @ [js ''sudo ufw status''] \<and>
    ((\<exists>ps ss. report = ps @ portRule t (default_param p []) @ ss) \<longrightarrow>
       allow env t p s =
         (Inr \<lparr>res_status = js ''skipped'', res_rule = Some (portRule t (default_param p [])),
               res_action = js ''allow'',
               res_message = js ''Rule '' @ [0x27] @ portRule t (default_param p []) @ [0x27]
                               @ js '' already exists.''\<rparr>, s1) \<and>
       deny env t p s =
         (Inr \<lparr>res_status = js ''skipped'', res_rule = Some (portRule t (default_param p [])),
               res_action = js ''deny'',
               res_message = js ''Rule '' @ [0x27] @ portRule t (default_param p []) @ [0x27]
                               @ js '' already exists.''\<rparr>, s1) \<and>
       reject env t p s =
         (Inr \<lparr>res_status = js ''skipped'', res_rule = Some (portRule t (default_param p [])),
               res_action = js ''reject'',
               res_message = js ''Rule '' @ [0x27] @ portRule t (default_param p []) @ [0x27]
                               @ js '' already exists.''\<rparr>, s1)) \<and>
    ((\<exists>ps ss. report = ps @ ipRule ip (default_param port []) (default_param p []) @ ss) \<longrightarrow>
       allowFromIp env ip port p s =
         (Inr \<lparr>res_status = js ''skipped'',
               res_rule = Some (ipRule ip (default_param port []) (default_param p [])),
               res_action = js ''allow'',
               res_message = js ''Rule '' @ [0x27]
                               @ ipRule ip (default_param port []) (default_param p []) @ [0x27]
                               @ js '' already exists.''\<rparr>, s1) \<and>
       denyFromIp env ip port p s =
         (Inr \<lparr>res_status = js ''skipped'',
               res_rule = Some (ipRule ip (default_param port []) (default_param p [])),
               res_action = js ''deny'',
               res_message = js ''Rule '' @ [0x27]
                               @ ipRule ip (default_param port []) (default_param p []) @ [0x27]
                               @ js '' already exists.''\<rparr>, s1))"
proof (intro conjI impI)
  show "issued s1 = issued s @ [js ''sudo ufw status'']"
    using assms by (rule status_issued)
next
  assume "\<exists>ps ss. report = ps @ portRule t (default_param p []) @ ss"
  then have found: "ruleExists env (portRule t (default_param p [])) s = (Inr True, s1)"
    using ruleExists_report [OF assms] by simp
  show "allow env t p s =
         (Inr \<lparr>res_status = js ''skipped'', res_rule = Some (portRule t (default_param p [])),
               res_action = js ''allow'',
               res_message = js ''Rule '' @ [0x27] @ portRule t (default_param p []) @ [0x27]
                               @ js '' already exists.''\<rparr>, s1)"
    by (simp add: allow_def Let_def found)
  show "deny env t p s =
         (Inr \<lparr>res_status = js ''skipped'', res_rule = Some (portRule t (default_param p [])),
               res_action = js ''deny'',
               res_message = js ''Rule '' @ [0x27] @ portRule t (default_param p []) @ [0x27]
                               @ js '' already exists.''\<rparr>, s1)"
    by (simp add: deny_def Let_def found)
  show "reject env t p s =
         (Inr \<lparr>res_status = js ''skipped'', res_rule = Some (portRule t (default_param p [])),
               res_action = js ''reject'',
               res_message = js ''Rule '' @ [0x27] @ portRule t (default_param p []) @ [0x27]
                               @ js '' already exists.''\<rparr>, s1)"
    by (simp add: reject_def Let_def found)
next
  assume "\<exists>ps ss. report = ps @ ipRule ip (default_param port []) (default_param p []) @ ss"
  then have found:
    "ruleExists env (ipRule ip (default_param port []) (default_param p [])) s = (Inr True, s1)"
    using ruleExists_report [OF assms] by simp
  show "allowFromIp env ip port p s =
         (Inr \<lparr>res_status = js ''skipped'',
               res_rule = Some (ipRule ip (default_param port []) (default_param p [])),
               res_action = js ''allow'',
               res_message = js ''Rule '' @ [0x27]
                               @ ipRule ip (default_param port []) (default_param p []) @ [0x27]
                               @ js '' already exists.''\<rparr>, s1)"
    by (simp add: allowFromIp_def Let_def found)
  show "denyFromIp env ip port p s =
         (Inr \<lparr>res_status = js ''skipped'',
               res_rule = Some (ipRule ip (default_param port []) (default_param p [])),
               res_action = js ''deny'',
               res_message = js ''Rule '' @ [0x27]
                               @ ipRule ip (default_param port []) (default_param p []) @ [0x27]
                               @ js '' already exists.''\<rparr>, s1)"
    by (simp add: denyFromIp_def Let_def found)
qed

lemma portRule_80_tcp: "portRule (Num 80) (js ''tcp'') = js ''80/tcp''"
  by code_simp

lemma ipRule_plain: "ipRule (js ''10.0.0.5'') [] [] = js ''from 10.0.0.5''"
  by code_simp

theorem existing_rule_is_skipped_witness:
  "allow (scripted [(js ''sudo ufw status'', ok (js ''80/tcp ALLOW from 10.0.0.5'' @ [LF]))] [])
       (Num 80) (Some (js ''tcp'')) boot =
     (Inr \<lparr>res_status = js ''skipped'', res_rule = Some (js ''80/tcp''),
           res_action = js ''allow'',
           res_message = js ''Rule '' @ [0x27] @ js ''80/tcp'' @ [0x27] @ js '' already exists.''\<rparr>,
      \<lparr>world = (), issued = [js ''sudo ufw status'']\<rparr>) \<and>
   denyFromIp (scripted [(js ''sudo ufw status'', ok (js ''80/tcp ALLOW from 10.0.0.5'' @ [LF]))] [])
       (js ''10.0.0.5'') None None boot =
     (Inr \<lparr>res_status = js ''skipped'', res_rule = Some (js ''from 10.0.0.5''),
           res_action = js ''deny'',
           res_message = js ''Rule '' @ [0x27] @ js ''from 10.0.0.5'' @ [0x27]
                           @ js '' already exists.''\<rparr>,
      \<lparr>world = (), issued = [js ''sudo ufw status'']\<rparr>)"
proof -
  let ?env = "scripted [(js ''sudo ufw status'', ok (js ''80/tcp ALLOW from 10.0.0.5'' @ [LF]))] []"
  have st: "status ?env boot =
      (Inr (js ''80/tcp ALLOW from 10.0.0.5''), \<lparr>world = (), issued = [js ''sudo ufw status'']\<rparr>)"
    by code_simp
  have "String_includes (js ''80/tcp ALLOW from 10.0.0.5'') (js ''80/tcp'')"
    by code_simp
  then have h1: "\<exists>ps ss. js ''80/tcp ALLOW from 10.0.0.5'' =
      ps @ portRule (Num 80) (default_param (Some (js ''tcp'')) []) @ ss"
    by (simp add: String_includes_iff default_param_def portRule_80_tcp)
  have "String_includes (js ''80/tcp ALLOW from 10.0.0.5'') (js ''from 10.0.0.5'')"
    by code_simp
  then have h2: "\<exists>ps ss. js ''80/tcp ALLOW from 10.0.0.5'' =
      ps @ ipRule (js ''10.0.0.5'') (default_param None []) (default_param None []) @ ss"
    by (simp add: String_includes_iff default_param_def ipRule_plain)
  show ?thesis
    using existing_rule_is_skipped [OF st, where t = "Num 80" and p = "Some (js ''tcp'')"]
      existing_rule_is_skipped [OF st, where ip = "js ''10.0.0.5''" and port = None and p = None] h1 h2
    by (simp add: default_param_def portRule_80_tcp ipRule_plain)
qed

lemma allow_absent:
  "ruleExists env (portRule t (default_param p [])) s = (Inr False, s1) \<Longrightarrow>
   allow env t p s =
     (case runCommand env (js ''sudo ufw allow '' @ portRule t (default_param p [])) s1 of
        (Inl e, s2) \<Rightarrow> (Inl e, s2)
      | (Inr result, s2) \<Rightarrow>
          (Inr \<lparr>res_status = js ''success'', res_rule = Some (portRule t (default_param p [])),
                res_action = js ''allow'', res_message = result\<rparr>, s2))"
  by (simp add: allow_def Let_def)

lemma deny_absent:
  "ruleExists env (portRule t (default_param p [])) s = (Inr False, s1) \<Longrightarrow>
   deny env t p s =
     (case runCommand env (js ''sudo ufw deny '' @ portRule t (default_param p [])) s1 of
        (Inl e, s2) \<Rightarrow> (Inl e, s2)
      | (Inr result, s2) \<Rightarrow>
          (Inr \<lparr>res_status = js ''success'', res_rule = Some (portRule t (default_param p [])),
                res_action = js ''deny'', res_message = result\<rparr>, s2))"
  by (simp add: deny_def Let_def)

lemma reject_absent:
  "ruleExists env (portRule t (default_param p [])) s = (Inr False, s1) \<Longrightarrow>
   reject env t p s =
     (case runCommand env (js ''sudo ufw reject '' @ portRule t (default_param p [])) s1 of
        (Inl e, s2) \<Rightarrow> (Inl e, s2)
      | (Inr result, s2) \<Rightarrow>
          (Inr \<lparr>res_status = js ''success'', res_rule = Some (portRule t (default_param p [])),
                res_action = js ''reject'', res_message = result\<rparr>, s2))"
  by (simp add: reject_def Let_def)

lemma allowFromIp_absent:
  "ruleExists env (ipRule ip (default_param port []) (default_param p [])) s = (Inr False, s1) \<Longrightarrow>
   allowFromIp env ip port p s =
     (case runCommand env
             (js ''sudo ufw allow '' @ ipRule ip (default_param port []) (default_param p [])) s1 of
        (Inl e, s2) \<Rightarrow> (Inl e, s2)
      | (Inr result, s2) \<Rightarrow>
          (Inr \<lparr>res_status = js ''success'',
                res_rule = Some (ipRule ip (default_param port []) (default_param p [])),
                res_action = js ''allow'', res_message = result\<rparr>, s2))"
  by (simp add: allowFromIp_def Let_def)

lemma denyFromIp_absent:
  "ruleExists env (ipRule ip (default_param port []) (default_param p [])) s = (Inr False, s1) \<Longrightarrow>
   denyFromIp env ip port p s =
     (case runCommand env
             (js ''sudo ufw deny '' @ ipRule ip (default_param port []) (default_param p [])) s1 of
        (Inl e, s2) \<Rightarrow> (Inl e, s2)
      | (Inr result, s2) \<Rightarrow>
          (Inr \<lparr>res_status = js ''success'',
                res_rule = Some (ipRule ip (default_param port []) (default_param p [])),
                res_action = js ''deny'', res_message = result\<rparr>, s2))"
  by (simp add: denyFromIp_def Let_def)

text \<open>
  C2. Whenever the status report does not contain the rendered rule, each of the five
  operations issues, after the status query, exactly one further command: the verb
  followed by the rendered rule. When the executor does not fail on that command, the
  operation returns the result with status "success", the rule, the verb and the trimmed
  output of the command.
\<close>

theorem absent_rule_is_added:
  assumes "status env s = (Inr report, s1)"
  shows
    "(let rule = portRule t (default_param p []) in
      \<not> (\<exists>ps ss. report = ps @ rule @ ss) \<longrightarrow>
        issued (snd (allow env t p s)) =
          issued s @ [js ''sudo ufw status'', js ''sudo ufw allow '' @ rule] \<and>
        (\<not> failed (fst (exec env (js ''sudo ufw allow '' @ rule) (world s1))) \<longrightarrow>
           fst (allow env t p s) =
             Inr \<lparr>res_status = js ''success'', res_rule = Some rule, res_action = js ''allow'',
                  res_message =
                    trim (stdout (fst (exec env (js ''sudo ufw allow '' @ rule) (world s1))))\<rparr>) \<and>
        issued (snd (deny env t p s)) =
          issued s @ [js ''sudo ufw status'', js ''sudo ufw deny '' @ rule] \<and>
        (\<not> failed (fst (exec env (js ''sudo ufw deny '' @ rule) (world s1))) \<longrightarrow>
           fst (deny env t p s) =
             Inr \<lparr>res_status = js ''success'', res_rule = Some rule, res_action = js ''deny'',
                  res_message =
                    trim (stdout (fst (exec env (js ''sudo ufw deny '' @ rule) (world s1))))\<rparr>) \<and>
        issued (snd (reject env t p s)) =
          issued s @ [js ''sudo ufw status'', js ''sudo ufw reject '' @ rule] \<and>
        (\<not> failed (fst (exec env (js ''sudo ufw reject '' @ rule) (world s1))) \<longrightarrow>
           fst (reject env t p s) =
             Inr \<lparr>res_status = js ''success'', res_rule = Some rule, res_action = js ''reject'',
                  res_message =
                    trim (stdout (fst (exec env (js ''sudo ufw reject '' @ rule) (world s1))))\<rparr>)) \<and>
     (let rule = ipRule ip (default_param port []) (default_param p []) in
      \<not> (\<exists>ps ss. report = ps @ rule @ ss) \<longrightarrow>
        issued (snd (allowFromIp env ip port p s)) =
          issued s @ [js ''sudo ufw status'', js ''sudo ufw allow '' @ rule] \<and>
        (\<not> failed (fst (exec env (js ''sudo ufw allow '' @ rule) (world s1))) \<longrightarrow>
           fst (allowFromIp env ip port p s) =
             Inr \<lparr>res_status = js ''success'', res_rule = Some rule, res_action = js ''allow'',
                  res_message =
                    trim (stdout (fst (exec env (js ''sudo ufw allow '' @ rule) (world s1))))\<rparr>) \<and>
        issued (snd (denyFromIp env ip port p s)) =
          issued s @ [js ''sudo ufw status'', js ''sudo ufw deny '' @ rule] \<and>
        (\<not> failed (fst (exec env (js ''sudo ufw deny '' @ rule) (world s1))) \<longrightarrow>
           fst (denyFromIp env ip port p s) =
             Inr \<lparr>res_status = js ''success'', res_rule = Some rule, res_action = js ''deny'',
                  res_message =
                    trim (stdout (fst (exec env (js ''sudo ufw deny '' @ rule) (world s1))))\<rparr>))"
proof -
  note log = status_issued [OF assms]
  have port: "ruleExists env (portRule t (default_param p [])) s = (Inr False, s1)"
    if "\<not> (\<exists>ps ss. report = ps @ portRule t (default_param p []) @ ss)"
    using ruleExists_report [OF assms] that by simp
  have ip: "ruleExists env (ipRule ip (default_param port []) (default_param p [])) s = (Inr False, s1)"
    if "\<not> (\<exists>ps ss. report = ps @ ipRule ip (default_param port []) (default_param p []) @ ss)"
    using ruleExists_report [OF assms] that by simp
  show ?thesis
    unfolding Let_def
  proof (intro conjI impI)
    assume a: "\<not> (\<exists>ps ss. report = ps @ portRule t (default_param p []) @ ss)"
    show "issued (snd (allow env t p s)) =
        issued s @ [js ''sudo ufw status'', js ''sudo ufw allow '' @ portRule t (default_param p [])]"
      by (simp only: allow_absent [OF port [OF a]] guarded_issued log) simp
    show "issued (snd (deny env t p s)) =
        issued s @ [js ''sudo ufw status'', js ''sudo ufw deny '' @ portRule t (default_param p [])]"
      by (simp only: deny_absent [OF port [OF a]] guarded_issued log) simp
    show "issued (snd (reject env t p s)) =
        issued s @ [js ''sudo ufw status'', js ''sudo ufw reject '' @ portRule t (default_param p [])]"
      by (simp only: reject_absent [OF port [OF a]] guarded_issued log) simp
  next
    assume a: "\<not> (\<exists>ps ss. report = ps @ portRule t (default_param p []) @ ss)"
      and ok: "\<not> failed (fst (exec env (js ''sudo ufw allow '' @ portRule t (default_param p [])) (world s1)))"
    show "fst (allow env t p s) =
       Inr \<lparr>res_status = js ''success'', res_rule = Some (portRule t (default_param p [])),
            res_action = js ''allow'',
            res_message = trim (stdout (fst (exec env
               (js ''sudo ufw allow '' @ portRule t (default_param p [])) (world s1))))\<rparr>"
      by (simp only: allow_absent [OF port [OF a]] guarded_ok [OF ok])
  next
    assume a: "\<not> (\<exists>ps ss. report = ps @ portRule t (default_param p []) @ ss)"
      and ok: "\<not> failed (fst (exec env (js ''sudo ufw deny '' @ portRule t (default_param p [])) (world s1)))"
    show "fst (deny env t p s) =
       Inr \<lparr>res_status = js ''success'', res_rule = Some (portRule t (default_param p [])),
            res_action = js ''deny'',
            res_message = trim (stdout (fst (exec env
               (js ''sudo ufw deny '' @ portRule t (default_param p [])) (world s1))))\<rparr>"
      by (simp only: deny_absent [OF port [OF a]] guarded_ok [OF ok])
  next
    assume a: "\<not> (\<exists>ps ss. report = ps @ portRule t (default_param p []) @ ss)"
      and ok: "\<not> failed (fst (exec env (js ''sudo ufw reject '' @ portRule t (default_param p [])) (world s1)))"
    show "fst (reject env t p s) =
       Inr \<lparr>res_status = js ''success'', res_rule = Some (portRule t (default_param p [])),
            res_action = js ''reject'',
            res_message = trim (stdout (fst (exec env
               (js ''sudo ufw reject '' @ portRule t (default_param p [])) (world s1))))\<rparr>"
      by (simp only: reject_absent [OF port [OF a]] guarded_ok [OF ok])
  next
    assume a: "\<not> (\<exists>ps ss. report = ps @ ipRule ip (default_param port []) (default_param p []) @ ss)"
    show "issued (snd (allowFromIp env ip port p s)) =
        issued s @ [js ''sudo ufw status'',
                    js ''sudo ufw allow '' @ ipRule ip (default_param port []) (default_param p [])]"
      by (simp only: allowFromIp_absent [OF ip [OF a]] guarded_issued log) simp
    show "issued (snd (denyFromIp env ip port p s)) =
        issued s @ [js ''sudo ufw status'',
                    js ''sudo ufw deny '' @ ipRule ip (default_param port []) (default_param p [])]"
      by (simp only: denyFromIp_absent [OF ip [OF a]] guarded_issued log) simp
  next
    assume a: "\<not> (\<exists>ps ss. report = ps @ ipRule ip (default_param port []) (default_param p []) @ ss)"
      and ok: "\<not> failed (fst (exec env
          (js ''sudo ufw allow '' @ ipRule ip (default_param port []) (default_param p [])) (world s1)))"
    show "fst (allowFromIp env ip port p s) =
       Inr \<lparr>res_status = js ''success'',
            res_rule = Some (ipRule ip (default_param port []) (default_param p [])),
            res_action = js ''allow'',
            res_message = trim (stdout (fst (exec env
               (js ''sudo ufw allow '' @ ipRule ip (default_param port []) (default_param p []))
               (world s1))))\<rparr>"
      by (simp only: allowFromIp_absent [OF ip [OF a]] guarded_ok [OF ok])
  next
    assume a: "\<not> (\<exists>ps ss. report = ps @ ipRule ip (default_param port []) (default_param p []) @ ss)"
      and ok: "\<not> failed (fst (exec env
          (js ''sudo ufw deny '' @ ipRule ip (default_param port []) (default_param p [])) (world s1)))"
    show "fst (denyFromIp env ip port p s) =
       Inr \<lparr>res_status = js ''success'',
            res_rule = Some (ipRule ip (default_param port []) (default_param p [])),
            res_action = js ''deny'',
            res_message = trim (stdout (fst (exec env
               (js ''sudo ufw deny '' @ ipRule ip (default_param port []) (default_param p []))
               (world s1))))\<rparr>"
      by (simp only: denyFromIp_absent [OF ip [OF a]] guarded_ok [OF ok])
  qed
qed

theorem absent_rule_is_added_witness:
  "fst (allow demo (Num 80) (Some (js ''tcp'')) boot) =
     Inr \<lparr>res_status = js ''success'', res_rule = Some (js ''80/tcp''), res_action = js ''allow'',
          res_message = js ''Rule added''\<rparr> \<and>
   issued (snd (allow demo (Num 80) (Some (js ''tcp'')) boot)) =
     [js ''sudo ufw status'', js ''sudo ufw allow 80/tcp''] \<and>
   fst (deny demo (Num 80) (Some (js ''tcp'')) boot) =
     Inr \<lparr>res_status = js ''success'', res_rule = Some (js ''80/tcp''), res_action = js ''deny'',
          res_message = js ''Rule updated''\<rparr> \<and>
   issued (snd (deny demo (Num 80) (Some (js ''tcp'')) boot)) =
     [js ''sudo ufw status'', js ''sudo ufw deny 80/tcp''] \<and>
   fst (reject demo (Num 80) (Some (js ''tcp'')) boot) =
     Inr \<lparr>res_status = js ''success'', res_rule = Some (js ''80/tcp''), res_action = js ''reject'',
          res_message = js ''Rule updated''\<rparr> \<and>
   issued (snd (reject demo (Num 80) (Some (js ''tcp'')) boot)) =
     [js ''sudo ufw status'', js ''sudo ufw reject 80/tcp''] \<and>
   fst (allowFromIp demo (js ''10.0.0.5'') None None boot) =
     Inr \<lparr>res_status = js ''success'', res_rule = Some (js ''from 10.0.0.5''), res_action = js ''allow'',
          res_message = js ''Rule added''\<rparr> \<and>
   issued (snd (allowFromIp demo (js ''10.0.0.5'') None None boot)) =
     [js ''sudo ufw status'', js ''sudo ufw allow from 10.0.0.5''] \<and>
   fst (denyFromIp demo (js ''10.0.0.5'') None None boot) =
     Inr \<lparr>res_status = js ''success'', res_rule = Some (js ''from 10.0.0.5''), res_action = js ''deny'',
          res_message = js ''Rule updated''\<rparr> \<and>
   issued (snd (denyFromIp demo (js ''10.0.0.5'') None None boot)) =
     [js ''sudo ufw status'', js ''sudo ufw deny from 10.0.0.5'']"
proof -
  have st: "status demo boot =
      (Inr (js ''Status: active''), \<lparr>world = (), issued = [js ''sudo ufw status'']\<rparr>)"
    by code_simp
  have "\<not> String_includes (js ''Status: active'') (js ''80/tcp'')"
    by code_simp
  then have h1: "\<not> (\<exists>ps ss. js ''Status: active'' = ps @ js ''80/tcp'' @ ss)"
    by (simp add: String_includes_iff)
  have "\<not> String_includes (js ''Status: active'') (js ''from 10.0.0.5'')"
    by code_simp
  then have h2: "\<not> (\<exists>ps ss. js ''Status: active'' = ps @ js ''from 10.0.0.5'' @ ss)"
    by (simp add: String_includes_iff)
  have c: "js ''sudo ufw allow '' @ js ''80/tcp'' = js ''sudo ufw allow 80/tcp''"
    "js ''sudo ufw deny '' @ js ''80/tcp'' = js ''sudo ufw deny 80/tcp''"
    "js ''sudo ufw reject '' @ js ''80/tcp'' = js ''sudo ufw reject 80/tcp''"
    "js ''sudo ufw allow '' @ js ''from 10.0.0.5'' = js ''sudo ufw allow from 10.0.0.5''"
    "js ''sudo ufw deny '' @ js ''from 10.0.0.5'' = js ''sudo ufw deny from 10.0.0.5''"
    by (simp_all add: js_def)
  have e: "exec demo (js ''sudo ufw allow 80/tcp'') () = (ok (js ''Rule added'' @ [LF]), ())"
    "exec demo (js ''sudo ufw deny 80/tcp'') () = (ok (js ''Rule updated'' @ [LF]), ())"
    "exec demo (js ''sudo ufw reject 80/tcp'') () = (ok ([LF] @ js ''Rule updated''), ())"
    "exec demo (js ''sudo ufw allow from 10.0.0.5'') () = (ok (js ''Rule added'' @ [LF]), ())"
    "exec demo (js ''sudo ufw deny from 10.0.0.5'') () = (ok (js ''Rule updated'' @ [LF]), ())"
    by code_simp+
  have tr: "trim (js ''Rule added'' @ [LF]) = js ''Rule added''"
    "trim (js ''Rule updated'' @ [LF]) = js ''Rule updated''"
    "trim (LF # js ''Rule updated'') = js ''Rule updated''"
    by code_simp+
  have out: "\<not> failed (ok x)" "stdout (ok x) = x" for x
    by (simp_all add: ok_def)
  have w: "issued boot = []"
    by (simp add: boot_def)
  note port = absent_rule_is_added [OF st, where t = "Num 80" and p = "Some (js ''tcp'')",
      unfolded Let_def default_param_def option.case portRule_80_tcp, THEN conjunct1, rule_format, OF h1]
  note ip = absent_rule_is_added [OF st, where ip = "js ''10.0.0.5''" and port = None and p = None,
      unfolded Let_def default_param_def option.case ipRule_plain, THEN conjunct2, rule_format, OF h2]
  show ?thesis
    using port ip by (simp add: c e tr w out)
qed

section \<open>State queries\<close>

lemma isEnabled_report:
  "status env s = (Inr report, s') \<Longrightarrow>
   isEnabled env s = (Inr (\<exists>ps ss. report = ps @ js ''active'' @ ss), s')"
  by (simp add: isEnabled_def String_includes_iff)

lemma inactive_contains_active:
  assumes "report = ps @ js ''inactive'' @ ss"
  shows "\<exists>ps' ss'. report = ps' @ js ''active'' @ ss'"
proof -
  have "js ''inactive'' = js ''in'' @ js ''active''"
    by (simp add: js_def)
  with assms have "report = (ps @ js ''in'') @ js ''active'' @ ss"
    by simp
  then show ?thesis by blast
qed

text \<open>
  C5. \<^verbatim>\<open>isEnabled()\<close> returns true when the status report contains "active" as a
  substring and false when it does not.
\<close>

theorem isEnabled_iff_report_contains_active:
  assumes "status env s = (Inr report, s')"
  shows "isEnabled env s = (Inr (\<exists>ps ss. report = ps @ js ''active'' @ ss), s')"
  using assms by (rule isEnabled_report)

theorem isEnabled_iff_report_contains_active_witness:
  "isEnabled (scripted [(js ''sudo ufw status'', ok (js ''Status: active'' @ [LF]))] []) boot =
     (Inr True, \<lparr>world = (), issued = [js ''sudo ufw status'']\<rparr>) \<and>
   isEnabled (scripted [(js ''sudo ufw status'', ok (js ''Status: off'' @ [LF]))] []) boot =
     (Inr False, \<lparr>world = (), issued = [js ''sudo ufw status'']\<rparr>)"
proof -
  have st1: "status (scripted [(js ''sudo ufw status'', ok (js ''Status: active'' @ [LF]))] []) boot =
      (Inr (js ''Status: active''), \<lparr>world = (), issued = [js ''sudo ufw status'']\<rparr>)"
    by code_simp
  have st2: "status (scripted [(js ''sudo ufw status'', ok (js ''Status: off'' @ [LF]))] []) boot =
      (Inr (js ''Status: off''), \<lparr>world = (), issued = [js ''sudo ufw status'']\<rparr>)"
    by code_simp
  have "String_includes (js ''Status: active'') (js ''active'')"
    by code_simp
  then have h1: "\<exists>ps ss. js ''Status: active'' = ps @ js ''active'' @ ss"
    by (simp add: String_includes_iff)
  have "\<not> String_includes (js ''Status: off'') (js ''active'')"
    by code_simp
  then have h2: "\<not> (\<exists>ps ss. js ''Status: off'' = ps @ js ''active'' @ ss)"
    by (simp add: String_includes_iff)
  show ?thesis
    using isEnabled_iff_report_contains_active [OF st1] isEnabled_iff_report_contains_active [OF st2]
      h1 h2 by simp
qed

text \<open>
  C10. A status report that contains "inactive" contains "active", so \<^verbatim>\<open>isEnabled()\<close>
  returns true on it: the report "Status: inactive" of a disabled firewall reads as enabled.
\<close>

theorem isEnabled_true_on_inactive:
  assumes "status env s = (Inr report, s')"
    and "\<exists>ps ss. report = ps @ js ''inactive'' @ ss"
  shows "isEnabled env s = (Inr True, s')"
  using isEnabled_report [OF assms(1)] assms(2) inactive_contains_active by auto

theorem isEnabled_true_on_inactive_witness:
  "isEnabled (scripted [(js ''sudo ufw status'', ok (js ''Status: inactive'' @ [LF]))] []) boot =
     (Inr True, \<lparr>world = (), issued = [js ''sudo ufw status'']\<rparr>)"
proof -
  have st: "status (scripted [(js ''sudo ufw status'', ok (js ''Status: inactive'' @ [LF]))] []) boot =
      (Inr (js ''Status: inactive''), \<lparr>world = (), issued = [js ''sudo ufw status'']\<rparr>)"
    by code_simp
  have "js ''Status: inactive'' = js ''Status: '' @ js ''inactive'' @ []"
    by (simp add: js_def)
  then have h: "\<exists>ps ss. js ''Status: inactive'' = ps @ js ''inactive'' @ ss"
    by blast
  show ?thesis
    using isEnabled_true_on_inactive [OF st h] .
qed

section \<open>Rule rendering\<close>

lemma ipRule_full:
  "ipRule (js ''10.0.0.5'') (js ''8080'') (js ''tcp'') = js ''from 10.0.0.5 to any port 8080 proto tcp''"
  by code_simp

lemma portRule_80: "portRule (Num 80) [] = js ''80''"
  by code_simp

text \<open>
  C3. The rule strings of the four examples: port 80 with protocol "tcp", port 80 with
  the protocol omitted, the address 10.0.0.5 with port "8080" and protocol "tcp", and
  the address alone.
\<close>

theorem canonical_rendering_examples:
  "portRule (Num 80) (default_param (Some (js ''tcp'')) []) = js ''80/tcp'' \<and>
   portRule (Num 80) (default_param None []) = js ''80'' \<and>
   ipRule (js ''10.0.0.5'') (default_param (Some (js ''8080'')) []) (default_param (Some (js ''tcp'')) [])
     = js ''from 10.0.0.5 to any port 8080 proto tcp'' \<and>
   ipRule (js ''10.0.0.5'') (default_param None []) (default_param None []) = js ''from 10.0.0.5''"
  by (simp add: default_param_def portRule_80_tcp portRule_80 ipRule_full ipRule_plain)

lemma digit_unit_inj:
  assumes "n < 10" and "m < 10" and "(of_nat (48 + n) :: 16 word) = of_nat (48 + m)"
  shows "n = m"
proof -
  from assms(3) have "take_bit 16 (48 + n) = take_bit 16 (48 + m)"
    by (simp only: word_of_nat_eq_iff) simp
  moreover have "take_bit 16 (48 + n) = 48 + n" and "take_bit 16 (48 + m) = 48 + m"
    using assms(1,2) by (simp_all add: take_bit_nat_eq_self)
  ultimately show ?thesis by simp
qed

lemma digit_unit_not_slash:
  assumes "n < 10"
  shows "(of_nat (48 + n) :: 16 word) \<noteq> 0x2F"
proof
  assume "(of_nat (48 + n) :: 16 word) = 0x2F"
  then have "(of_nat (48 + n) :: 16 word) = of_nat 47"
    by simp
  then have "take_bit 16 (48 + n) = take_bit 16 (47::nat)"
    by (simp only: word_of_nat_eq_iff) simp
  moreover have "take_bit 16 (48 + n) = 48 + n" and "take_bit 16 (47::nat) = 47"
    using assms by (simp_all add: take_bit_nat_eq_self)
  ultimately show False by simp
qed

lemma Number_toString_nonempty: "Number_toString n \<noteq> []"
  by (subst Number_toString.simps) simp

lemma Number_toString_no_slash: "0x2F \<notin> set (Number_toString n)"
proof (induction n rule: Number_toString.induct)
  case (1 n)
  show ?case
  proof (cases "n < 10")
    case True
    then show ?thesis
      using digit_unit_not_slash [of n] by (subst Number_toString.simps) auto
  next
    case False
    moreover have "n mod 10 < 10" by simp
    ultimately show ?thesis
      using "1.IH" digit_unit_not_slash [of "n mod 10"]
      by (subst Number_toString.simps) auto
  qed
qed

lemma Number_toString_inj: "Number_toString n = Number_toString m \<Longrightarrow> n = m"
proof (induction n arbitrary: m rule: Number_toString.induct)
  case (1 n)
  show ?case
  proof (cases "n < 10")
    case small_n: True
    show ?thesis
    proof (cases "m < 10")
      case True
      with small_n "1.prems" show ?thesis
        by (simp add: Number_toString.simps [of n] Number_toString.simps [of m] digit_unit_inj)
    next
      case False
      with small_n "1.prems" Number_toString_nonempty [of "m div 10"] show ?thesis
        by (simp add: Number_toString.simps [of n] Number_toString.simps [of m]
            Cons_eq_append_conv)
    qed
  next
    case big_n: False
    show ?thesis
    proof (cases "m < 10")
      case True
      with big_n "1.prems" Number_toString_nonempty [of "n div 10"] show ?thesis
        by (simp add: Number_toString.simps [of n] Number_toString.simps [of m]
            append_eq_Cons_conv)
    next
      case False
      with big_n "1.prems" have eq: "Number_toString (n div 10) = Number_toString (m div 10)"
        and d: "(of_nat (48 + n mod 10) :: 16 word) = of_nat (48 + m mod 10)"
        by (simp_all add: Number_toString.simps [of n] Number_toString.simps [of m])
      from "1.IH" [OF big_n eq] have "n div 10 = m div 10" .
      moreover from d have "n mod 10 = m mod 10"
        by (intro digit_unit_inj) simp_all
      ultimately show ?thesis
        by (metis div_mult_mod_eq)
    qed
  qed
qed

lemma takeWhile_portRule:
  assumes "0x2F \<notin> set (ToString t)"
  shows "takeWhile (\<lambda>c. c \<noteq> 0x2F) (portRule t p) = ToString t"
proof -
  have all: "\<And>c. c \<in> set (ToString t) \<Longrightarrow> c \<noteq> 0x2F"
    using assms by auto
  have "js ''/'' = [0x2F]"
    by (simp add: js_def)
  then show ?thesis
    using all by (simp add: portRule_def takeWhile_append2 takeWhile_eq_all_conv)
qed

lemma portRule_inj:
  assumes "0x2F \<notin> set (ToString t1)" and "0x2F \<notin> set (ToString t2)"
    and "portRule t1 p1 = portRule t2 p2"
  shows "ToString t1 = ToString t2 \<and> p1 = p2"
proof -
  have t: "ToString t1 = ToString t2"
    using takeWhile_portRule [OF assms(1), of p1] takeWhile_portRule [OF assms(2), of p2] assms(3)
    by simp
  have "js ''/'' = [0x2F]"
    by (simp add: js_def)
  with t assms(3) have "p1 = p2"
    by (auto simp add: portRule_def split: if_splits)
  with t show ?thesis by simp
qed

lemma ToString_same_kind:
  assumes "is_Num t1 = is_Num t2" and "ToString t1 = ToString t2"
  shows "t1 = t2"
  using assms by (cases t1; cases t2) (auto dest: Number_toString_inj)

text \<open>
  C4. The rule string of a port or service does not determine the pair of target and
  protocol: the service "80/tcp" without protocol and the service "80" with protocol
  "tcp" have the same rule string.
\<close>

theorem portRule_not_injective:
  "portRule (Str (js ''80/tcp'')) [] = portRule (Str (js ''80'')) (js ''tcp'') \<and>
   (Str (js ''80/tcp''), []) \<noteq> (Str (js ''80''), js ''tcp'')"
  by (simp add: portRule_def js_def)

text \<open>
  C4, as the code has it. Among targets whose text has no "/", equal rule strings come from
  targets with the same text and from the same protocol; two numbers or two strings are
  then the same target (the number 80 and the string "80" have the same text).
\<close>

theorem portRule_injective_without_slash:
  assumes "0x2F \<notin> set (ToString t1)" and "0x2F \<notin> set (ToString t2)"
    and "portRule t1 p1 = portRule t2 p2"
  shows "ToString t1 = ToString t2 \<and> p1 = p2 \<and> (is_Num t1 = is_Num t2 \<longrightarrow> t1 = t2)"
  using portRule_inj [OF assms] ToString_same_kind by blast

theorem portRule_injective_without_slash_witness:
  "0x2F \<notin> set (ToString (Num 80)) \<and> 0x2F \<notin> set (ToString (Str (js ''80''))) \<and>
   portRule (Num 80) (js ''tcp'') = portRule (Str (js ''80'')) (js ''tcp'') \<and>
   ToString (Num 80) = ToString (Str (js ''80'')) \<and>
   is_Num (Str (js ''ssh'')) = is_Num (Str (js ''ssh'')) \<and>
   0x2F \<notin> set (ToString (Str (js ''ssh''))) \<and>
   portRule (Str (js ''ssh'')) [] = portRule (Str (js ''ssh'')) []"
proof -
  have a: "0x2F \<notin> set (ToString (Num 80))" and b: "0x2F \<notin> set (ToString (Str (js ''80'')))"
    and c: "portRule (Num 80) (js ''tcp'') = portRule (Str (js ''80'')) (js ''tcp'')"
    and d: "0x2F \<notin> set (ToString (Str (js ''ssh'')))"
    by code_simp+
  show ?thesis
    using portRule_injective_without_slash [OF a b c]
      portRule_injective_without_slash [OF d d refl] a b c d
    by simp
qed

section \<open>What is returned of the executor's output\<close>

lemma trim_parts:
  "\<exists>pre post. s = pre @ trim s @ post \<and> list_all isWhiteSpace pre \<and> list_all isWhiteSpace post \<and>
     (trim s = [] \<or> \<not> isWhiteSpace (hd (trim s)) \<and> \<not> isWhiteSpace (last (trim s)))"
proof -
  define pre where "pre = takeWhile isWhiteSpace s"
  define m where "m = dropWhile isWhiteSpace s"
  define post where "post = rev (takeWhile isWhiteSpace (rev m))"
  have t: "trim s = rev (dropWhile isWhiteSpace (rev m))"
    by (simp add: trim_def m_def)
  have "m = rev (takeWhile isWhiteSpace (rev m) @ dropWhile isWhiteSpace (rev m))"
    by (simp only: takeWhile_dropWhile_id rev_rev_ident)
  also have "\<dots> = rev (dropWhile isWhiteSpace (rev m)) @ rev (takeWhile isWhiteSpace (rev m))"
    by (simp only: rev_append)
  finally have m: "m = trim s @ post"
    by (simp only: t post_def)
  have sm: "s = pre @ m"
    by (simp add: pre_def m_def)
  have s: "s = pre @ trim s @ post"
    by (subst m [symmetric]) (rule sm)
  have p1: "list_all isWhiteSpace pre"
    by (auto simp add: pre_def list_all_iff dest: set_takeWhileD)
  have p2: "list_all isWhiteSpace post"
    by (auto simp add: post_def list_all_iff dest: set_takeWhileD)
  have ends: "\<not> isWhiteSpace (hd (trim s)) \<and> \<not> isWhiteSpace (last (trim s))" if ne: "trim s \<noteq> []"
  proof
    from ne have "m \<noteq> []"
      using m by auto
    then have "\<not> isWhiteSpace (hd m)"
      unfolding m_def by (rule hd_dropWhile)
    moreover have "hd m = hd (trim s)"
      using m ne by (metis hd_append2)
    ultimately show "\<not> isWhiteSpace (hd (trim s))"
      by simp
    from ne have d: "dropWhile isWhiteSpace (rev m) \<noteq> []"
      by (simp add: t)
    then have "\<not> isWhiteSpace (hd (dropWhile isWhiteSpace (rev m)))"
      by (rule hd_dropWhile)
    moreover have "last (trim s) = hd (dropWhile isWhiteSpace (rev m))"
      using d by (simp add: t last_rev)
    ultimately show "\<not> isWhiteSpace (last (trim s))"
      by simp
  qed
  show ?thesis
    using s p1 p2 ends by blast
qed

lemma trim_verbatim:
  assumes "s = [] \<or> \<not> isWhiteSpace (hd s) \<and> \<not> isWhiteSpace (last s)"
  shows "trim s = s"
proof (cases "s = []")
  case True
  then show ?thesis by (simp add: trim_def)
next
  case False
  with assms have h: "\<not> isWhiteSpace (hd s)" and l: "\<not> isWhiteSpace (last s)"
    by simp_all
  from False h have "dropWhile isWhiteSpace s = s"
    by (cases s) simp_all
  moreover from False l have "dropWhile isWhiteSpace (rev s) = rev s"
    by (cases "rev s") (simp_all add: last_rev [symmetric] hd_rev)
  ultimately show ?thesis
    by (simp add: trim_def)
qed

lemma trim_fixed_ends:
  assumes "trim s = s"
  shows "s = [] \<or> \<not> isWhiteSpace (hd s) \<and> \<not> isWhiteSpace (last s)"
proof -
  from trim_parts [of s] have
    "trim s = [] \<or> \<not> isWhiteSpace (hd (trim s)) \<and> \<not> isWhiteSpace (last (trim s))"
    by blast
  then show ?thesis
    by (simp only: assms)
qed

lemma skipped_not_success: "js ''skipped'' \<noteq> js ''success''"
  by (simp add: js_def)

lemma guarded_message:
  assumes "fst (case runCommand env c s1 of
                  (Inl e, s2) \<Rightarrow> (Inl e, s2)
                | (Inr result, s2) \<Rightarrow> (Inr (f result), s2)) = Inr res"
  shows "res = f (trim (stdout (fst (exec env c (world s1)))))"
proof (cases "failed (fst (exec env c (world s1)))")
  case True
  with assms show ?thesis by (simp add: runCommand_failed)
next
  case False
  with assms show ?thesis by (simp add: runCommand_ok)
qed

lemma ruleExists_cases:
  obtains (rejected) e s1 where "status env s = (Inl e, s1)" "ruleExists env rule s = (Inl e, s1)"
  | (answered) found where "ruleExists env rule s = (Inr found, snd (status env s))"
proof (cases "status env s")
  case (Pair r s1)
  show ?thesis
  proof (cases r)
    case (Inl e)
    with Pair show ?thesis by (intro rejected [of e s1]) (simp_all add: ruleExists_def)
  next
    case (Inr report)
    with Pair show ?thesis by (intro answered) (simp add: ruleExists_def)
  qed
qed

lemma allow_success_message:
  assumes "fst (allow env t p s) = Inr res" and "res_status res = js ''success''"
  shows "res_message res = trim (stdout (fst (exec env
      (js ''sudo ufw allow '' @ portRule t (default_param p [])) (world (snd (status env s))))))"
proof (cases env "portRule t (default_param p [])" s rule: ruleExists_cases)
  case (rejected e s1)
  with assms show ?thesis by (simp add: allow_def Let_def)
next
  case (answered found)
  show ?thesis
  proof (cases found)
    case True
    with answered assms show ?thesis
      by (auto simp add: allow_def Let_def skipped_not_success)
  next
    case False
    with answered assms(1) show ?thesis
      by (auto simp add: allow_def Let_def dest!: guarded_message)
  qed
qed

lemma deny_success_message:
  assumes "fst (deny env t p s) = Inr res" and "res_status res = js ''success''"
  shows "res_message res = trim (stdout (fst (exec env
      (js ''sudo ufw deny '' @ portRule t (default_param p [])) (world (snd (status env s))))))"
proof (cases env "portRule t (default_param p [])" s rule: ruleExists_cases)
  case (rejected e s1)
  with assms show ?thesis by (simp add: deny_def Let_def)
next
  case (answered found)
  show ?thesis
  proof (cases found)
    case True
    with answered assms show ?thesis
      by (auto simp add: deny_def Let_def skipped_not_success)
  next
    case False
    with answered assms(1) show ?thesis
      by (auto simp add: deny_def Let_def dest!: guarded_message)
  qed
qed

lemma reject_success_message:
  assumes "fst (reject env t p s) = Inr res" and "res_status res = js ''success''"
  shows "res_message res = trim (stdout (fst (exec env
      (js ''sudo ufw reject '' @ portRule t (default_param p [])) (world (snd (status env s))))))"
proof (cases env "portRule t (default_param p [])" s rule: ruleExists_cases)
  case (rejected e s1)
  with assms show ?thesis by (simp add: reject_def Let_def)
next
  case (answered found)
  show ?thesis
  proof (cases found)
    case True
    with answered assms show ?thesis
      by (auto simp add: reject_def Let_def skipped_not_success)
  next
    case False
    with answered assms(1) show ?thesis
      by (auto simp add: reject_def Let_def dest!: guarded_message)
  qed
qed

lemma allowFromIp_success_message:
  assumes "fst (allowFromIp env ip port p s) = Inr res" and "res_status res = js ''success''"
  shows "res_message res = trim (stdout (fst (exec env
      (js ''sudo ufw allow '' @ ipRule ip (default_param port []) (default_param p []))
      (world (snd (status env s))))))"
proof (cases env "ipRule ip (default_param port []) (default_param p [])" s rule: ruleExists_cases)
  case (rejected e s1)
  with assms show ?thesis by (simp add: allowFromIp_def Let_def)
next
  case (answered found)
  show ?thesis
  proof (cases found)
    case True
    with answered assms show ?thesis
      by (auto simp add: allowFromIp_def Let_def skipped_not_success)
  next
    case False
    with answered assms(1) show ?thesis
      by (auto simp add: allowFromIp_def Let_def dest!: guarded_message)
  qed
qed

lemma denyFromIp_success_message:
  assumes "fst (denyFromIp env ip port p s) = Inr res" and "res_status res = js ''success''"
  shows "res_message res = trim (stdout (fst (exec env
      (js ''sudo ufw deny '' @ ipRule ip (default_param port []) (default_param p []))
      (world (snd (status env s))))))"
proof (cases env "ipRule ip (default_param port []) (default_param p [])" s rule: ruleExists_cases)
  case (rejected e s1)
  with assms show ?thesis by (simp add: denyFromIp_def Let_def)
next
  case (answered found)
  show ?thesis
  proof (cases found)
    case True
    with answered assms show ?thesis
      by (auto simp add: denyFromIp_def Let_def skipped_not_success)
  next
    case False
    with answered assms(1) show ?thesis
      by (auto simp add: denyFromIp_def Let_def dest!: guarded_message)
  qed
qed

lemma status_ok:
  "\<not> failed (fst (exec env (js ''sudo ufw status'') (world s))) \<Longrightarrow>
   fst (status env s) = Inr (trim (stdout (fst (exec env (js ''sudo ufw status'') (world s)))))"
  by (simp add: status_def runCommand_ok)

text \<open>
  C9, as the code has it. \<^verbatim>\<open>status()\<close> returns the standard output of the executor
  with the white space at both ends removed, which is the output itself when it is empty
  or neither starts nor ends with white space, and only then; and the message of a result
  with status "success" of the five rule operations is the trimmed output of the
  operation's command.
\<close>

theorem output_is_returned_trimmed:
  "(\<not> failed (fst (exec env (js ''sudo ufw status'') (world s))) \<longrightarrow>
      fst (status env s) = Inr (trim (stdout (fst (exec env (js ''sudo ufw status'') (world s))))) \<and>
      ((stdout (fst (exec env (js ''sudo ufw status'') (world s))) = [] \<or>
        \<not> isWhiteSpace (hd (stdout (fst (exec env (js ''sudo ufw status'') (world s))))) \<and>
        \<not> isWhiteSpace (last (stdout (fst (exec env (js ''sudo ufw status'') (world s)))))) \<longrightarrow>
       fst (status env s) = Inr (stdout (fst (exec env (js ''sudo ufw status'') (world s)))))) \<and>
   (fst (allow env t p s) = Inr res \<and> res_status res = js ''success'' \<longrightarrow>
      res_message res = trim (stdout (fst (exec env
        (js ''sudo ufw allow '' @ portRule t (default_param p [])) (world (snd (status env s))))))) \<and>
   (fst (deny env t p s) = Inr res \<and> res_status res = js ''success'' \<longrightarrow>
      res_message res = trim (stdout (fst (exec env
        (js ''sudo ufw deny '' @ portRule t (default_param p [])) (world (snd (status env s))))))) \<and>
   (fst (reject env t p s) = Inr res \<and> res_status res = js ''success'' \<longrightarrow>
      res_message res = trim (stdout (fst (exec env
        (js ''sudo ufw reject '' @ portRule t (default_param p [])) (world (snd (status env s))))))) \<and>
   (fst (allowFromIp env ip port p s) = Inr res \<and> res_status res = js ''success'' \<longrightarrow>
      res_message res = trim (stdout (fst (exec env
        (js ''sudo ufw allow '' @ ipRule ip (default_param port []) (default_param p []))
        (world (snd (status env s))))))) \<and>
   (fst (denyFromIp env ip port p s) = Inr res \<and> res_status res = js ''success'' \<longrightarrow>
      res_message res = trim (stdout (fst (exec env
        (js ''sudo ufw deny '' @ ipRule ip (default_param port []) (default_param p []))
        (world (snd (status env s))))))) \<and>
   (\<not> failed (fst (exec env (js ''sudo ufw status'') (world s))) \<and>
    fst (status env s) = Inr (stdout (fst (exec env (js ''sudo ufw status'') (world s)))) \<longrightarrow>
      stdout (fst (exec env (js ''sudo ufw status'') (world s))) = [] \<or>
      \<not> isWhiteSpace (hd (stdout (fst (exec env (js ''sudo ufw status'') (world s))))) \<and>
      \<not> isWhiteSpace (last (stdout (fst (exec env (js ''sudo ufw status'') (world s))))))"
proof (intro conjI impI)
  assume "\<not> failed (fst (exec env (js ''sudo ufw status'') (world s))) \<and>
    fst (status env s) = Inr (stdout (fst (exec env (js ''sudo ufw status'') (world s))))"
  then have "trim (stdout (fst (exec env (js ''sudo ufw status'') (world s)))) =
      stdout (fst (exec env (js ''sudo ufw status'') (world s)))"
    using status_ok [of env s] by simp
  then show "stdout (fst (exec env (js ''sudo ufw status'') (world s))) = [] \<or>
      \<not> isWhiteSpace (hd (stdout (fst (exec env (js ''sudo ufw status'') (world s))))) \<and>
      \<not> isWhiteSpace (last (stdout (fst (exec env (js ''sudo ufw status'') (world s)))))"
    by (rule trim_fixed_ends)
next
  assume ok: "\<not> failed (fst (exec env (js ''sudo ufw status'') (world s)))"
  show "fst (status env s) = Inr (trim (stdout (fst (exec env (js ''sudo ufw status'') (world s)))))"
    using ok by (rule status_ok)
  assume "stdout (fst (exec env (js ''sudo ufw status'') (world s))) = [] \<or>
        \<not> isWhiteSpace (hd (stdout (fst (exec env (js ''sudo ufw status'') (world s))))) \<and>
        \<not> isWhiteSpace (last (stdout (fst (exec env (js ''sudo ufw status'') (world s)))))"
  then show "fst (status env s) = Inr (stdout (fst (exec env (js ''sudo ufw status'') (world s))))"
    using status_ok [OF ok] by (simp only: trim_verbatim)
qed (auto intro: allow_success_message deny_success_message reject_success_message
       allowFromIp_success_message denyFromIp_success_message)

theorem output_is_returned_trimmed_witness:
  "fst (status demo boot) = Inr (js ''Status: active'') \<and>
   stdout (fst (exec demo (js ''sudo ufw status'') (world boot))) = js ''Status: active'' \<and>
   fst (allow demo (Num 80) (Some (js ''tcp'')) boot) =
     Inr \<lparr>res_status = js ''success'', res_rule = Some (js ''80/tcp''), res_action = js ''allow'',
           res_message = js ''Rule added''\<rparr> \<and>
   trim (stdout (fst (exec demo (js ''sudo ufw allow '' @ portRule (Num 80) (default_param (Some (js ''tcp'')) []))
       (world (snd (status demo boot)))))) = js ''Rule added'' \<and>
   fst (deny demo (Num 80) (Some (js ''tcp'')) boot) =
     Inr \<lparr>res_status = js ''success'', res_rule = Some (js ''80/tcp''), res_action = js ''deny'',
           res_message = js ''Rule updated''\<rparr> \<and>
   trim (stdout (fst (exec demo (js ''sudo ufw deny '' @ portRule (Num 80) (default_param (Some (js ''tcp'')) []))
       (world (snd (status demo boot)))))) = js ''Rule updated'' \<and>
   fst (reject demo (Num 80) (Some (js ''tcp'')) boot) =
     Inr \<lparr>res_status = js ''success'', res_rule = Some (js ''80/tcp''), res_action = js ''reject'',
           res_message = js ''Rule updated''\<rparr> \<and>
   trim (stdout (fst (exec demo (js ''sudo ufw reject '' @ portRule (Num 80) (default_param (Some (js ''tcp'')) []))
       (world (snd (status demo boot)))))) = js ''Rule updated'' \<and>
   fst (allowFromIp demo (js ''10.0.0.5'') None None boot) =
     Inr \<lparr>res_status = js ''success'', res_rule = Some (js ''from 10.0.0.5''), res_action = js ''allow'',
           res_message = js ''Rule added''\<rparr> \<and>
   trim (stdout (fst (exec demo (js ''sudo ufw allow '' @ ipRule (js ''10.0.0.5'') (default_param None []) (default_param None []))
       (world (snd (status demo boot)))))) = js ''Rule added'' \<and>
   fst (denyFromIp demo (js ''10.0.0.5'') None None boot) =
     Inr \<lparr>res_status = js ''success'', res_rule = Some (js ''from 10.0.0.5''), res_action = js ''deny'',
           res_message = js ''Rule updated''\<rparr> \<and>
   trim (stdout (fst (exec demo (js ''sudo ufw deny '' @ ipRule (js ''10.0.0.5'') (default_param None []) (default_param None []))
       (world (snd (status demo boot)))))) = js ''Rule updated''"
proof -
  have ok: "\<not> failed (fst (exec demo (js ''sudo ufw status'') (world boot)))"
    and out: "stdout (fst (exec demo (js ''sudo ufw status'') (world boot))) = js ''Status: active''"
    and ends: "\<not> isWhiteSpace (hd (js ''Status: active'')) \<and> \<not> isWhiteSpace (last (js ''Status: active''))"
    by code_simp+
  have a: "fst (allow demo (Num 80) (Some (js ''tcp'')) boot) =
     Inr \<lparr>res_status = js ''success'', res_rule = Some (js ''80/tcp''), res_action = js ''allow'',
           res_message = js ''Rule added''\<rparr>"
    by code_simp
  have d: "fst (deny demo (Num 80) (Some (js ''tcp'')) boot) =
     Inr \<lparr>res_status = js ''success'', res_rule = Some (js ''80/tcp''), res_action = js ''deny'',
           res_message = js ''Rule updated''\<rparr>"
    by code_simp
  have r: "fst (reject demo (Num 80) (Some (js ''tcp'')) boot) =
     Inr \<lparr>res_status = js ''success'', res_rule = Some (js ''80/tcp''), res_action = js ''reject'',
           res_message = js ''Rule updated''\<rparr>"
    by code_simp
  have ai: "fst (allowFromIp demo (js ''10.0.0.5'') None None boot) =
     Inr \<lparr>res_status = js ''success'', res_rule = Some (js ''from 10.0.0.5''), res_action = js ''allow'',
           res_message = js ''Rule added''\<rparr>"
    by code_simp
  have di: "fst (denyFromIp demo (js ''10.0.0.5'') None None boot) =
     Inr \<lparr>res_status = js ''success'', res_rule = Some (js ''from 10.0.0.5''), res_action = js ''deny'',
           res_message = js ''Rule updated''\<rparr>"
    by code_simp
  note t = output_is_returned_trimmed [where env = demo and s = boot]
  have st: "fst (status demo boot) = Inr (js ''Status: active'')"
    using t [THEN conjunct1, rule_format, OF ok, THEN conjunct2, rule_format] out ends by simp
  have ma: "trim (stdout (fst (exec demo (js ''sudo ufw allow '' @ portRule (Num 80) (default_param (Some (js ''tcp'')) []))
       (world (snd (status demo boot)))))) = js ''Rule added''"
    using t [THEN conjunct2, THEN conjunct1, rule_format, OF conjI, OF a] by simp
  have md: "trim (stdout (fst (exec demo (js ''sudo ufw deny '' @ portRule (Num 80) (default_param (Some (js ''tcp'')) []))
       (world (snd (status demo boot)))))) = js ''Rule updated''"
    using t [THEN conjunct2, THEN conjunct2, THEN conjunct1, rule_format, OF conjI, OF d] by simp
  have mr: "trim (stdout (fst (exec demo (js ''sudo ufw reject '' @ portRule (Num 80) (default_param (Some (js ''tcp'')) []))
       (world (snd (status demo boot)))))) = js ''Rule updated''"
    using t [THEN conjunct2, THEN conjunct2, THEN conjunct2, THEN conjunct1, rule_format, OF conjI, OF r] by simp
  have mai: "trim (stdout (fst (exec demo (js ''sudo ufw allow '' @ ipRule (js ''10.0.0.5'') (default_param None []) (default_param None []))
       (world (snd (status demo boot)))))) = js ''Rule added''"
    using t [THEN conjunct2, THEN conjunct2, THEN conjunct2, THEN conjunct2, THEN conjunct1, rule_format, OF conjI, OF ai] by simp
  have mdi: "trim (stdout (fst (exec demo (js ''sudo ufw deny '' @ ipRule (js ''10.0.0.5'') (default_param None []) (default_param None []))
       (world (snd (status demo boot)))))) = js ''Rule updated''"
    using t [THEN conjunct2, THEN conjunct2, THEN conjunct2, THEN conjunct2, THEN conjunct2,
        THEN conjunct1, rule_format, OF conjI, OF di] by simp
  have "js ''Status: active'' = [] \<or>
      \<not> isWhiteSpace (hd (js ''Status: active'')) \<and> \<not> isWhiteSpace (last (js ''Status: active''))"
    using t [THEN conjunct2, THEN conjunct2, THEN conjunct2, THEN conjunct2, THEN conjunct2,
        THEN conjunct2, rule_format, OF conjI, OF ok] st out by simp
  then show ?thesis
    using st out a d r ai di ma md mr mai mdi by simp
qed

text \<open>
  C9. The status report is not the executor's output verbatim: the line feed that ends
  the output of the command is not returned.
\<close>

theorem status_not_verbatim:
  "fst (status (scripted [(js ''sudo ufw status'', ok (js ''Status: active'' @ [LF]))] []) boot) =
     Inr (js ''Status: active'') \<and>
   stdout (fst (exec (scripted [(js ''sudo ufw status'', ok (js ''Status: active'' @ [LF]))] [])
     (js ''sudo ufw status'') (world boot))) = js ''Status: active'' @ [LF] \<and>
   js ''Status: active'' \<noteq> js ''Status: active'' @ [LF]"
  by (simp add: status_def runCommand_def scripted_def ok_def boot_def js_def trim_def
      isWhiteSpace_def LF_def)

section \<open>Restore\<close>

lemma restore_loop_nonblank:
  "restore_loop env backupRules s =
   restore_loop env (filter (\<lambda>rule. trim rule \<noteq> []) backupRules) s"
  by (induction backupRules arbitrary: s) (simp_all split: prod.splits sum.splits)

lemma restore_after_priming:
  assumes "\<not> failed (fst (exec env priming (world s)))"
  shows "restore env filePath s =
     (case readFileSync env filePath (snd (exec env priming (world s))) of
        None \<Rightarrow> (Inl (ReadFailure filePath),
                 \<lparr>world = snd (exec env priming (world s)), issued = issued s @ [priming]\<rparr>)
      | Some text \<Rightarrow>
          (case restore_loop env (String_split LF text)
                  \<lparr>world = snd (exec env priming (world s)), issued = issued s @ [priming]\<rparr> of
             (Inl e, s2) \<Rightarrow> (Inl e, s2)
           | (Inr done, s2) \<Rightarrow>
               (Inr \<lparr>res_status = js ''success'', res_rule = None, res_action = js ''restore'',
                     res_message = js ''Restored from '' @ filePath @ js ''.''\<rparr>, s2)))"
  by (simp add: restore_def runCommand_ok [OF assms])

lemma restore_priming_failed:
  assumes "failed (fst (exec env priming (world s)))"
  shows "restore env filePath s =
     (Inl (Rejected (js ''Error: '' @ stderr (fst (exec env priming (world s))))),
      \<lparr>world = snd (exec env priming (world s)), issued = issued s @ [priming]\<rparr>)"
  by (simp add: restore_def runCommand_failed [OF assms])

lemma restore_loop_issued_prefix:
  "\<exists>k. issued (snd (restore_loop env backupRules s)) =
     issued s @ take k (map (\<lambda>rule. js ''sudo ufw '' @ trim rule)
                          (filter (\<lambda>rule. trim rule \<noteq> []) backupRules))"
proof (induction backupRules arbitrary: s)
  case Nil
  show ?case by simp
next
  case (Cons rule backupRules)
  let ?cmds = "map (\<lambda>rule. js ''sudo ufw '' @ trim rule)
                 (filter (\<lambda>rule. trim rule \<noteq> []) backupRules)"
  show ?case
  proof (cases "trim rule = []")
    case True
    with Cons.IH [of s] show ?thesis by simp
  next
    case False
    show ?thesis
    proof (cases "failed (fst (exec env (js ''sudo ufw '' @ trim rule) (world s)))")
      case True
      with False have "issued (snd (restore_loop env (rule # backupRules) s)) =
          issued s @ take 1 ((js ''sudo ufw '' @ trim rule) # ?cmds)"
        by (simp add: runCommand_failed)
      with False show ?thesis
        by (metis (mono_tags, lifting) filter.simps(2) list.simps(9))
    next
      case ok: False
      let ?s1 = "\<lparr>world = snd (exec env (js ''sudo ufw '' @ trim rule) (world s)),
                 issued = issued s @ [js ''sudo ufw '' @ trim rule]\<rparr>"
      from Cons.IH [of ?s1] obtain k where
        "issued (snd (restore_loop env backupRules ?s1)) = issued ?s1 @ take k ?cmds"
        by blast
      with False ok have "issued (snd (restore_loop env (rule # backupRules) s)) =
          issued s @ take (Suc k) ((js ''sudo ufw '' @ trim rule) # ?cmds)"
        by (simp add: runCommand_ok)
      with False show ?thesis
        by (metis (mono_tags, lifting) filter.simps(2) list.simps(9))
    qed
  qed
qed

lemma restore_issued_prefix:
  assumes "readFileSync env filePath (snd (exec env priming (world s))) = Some text"
  shows "\<exists>k. issued (snd (restore env filePath s)) =
     issued s @ priming # take k (map (\<lambda>rule. js ''sudo ufw '' @ trim rule)
                          (filter (\<lambda>rule. trim rule \<noteq> []) (String_split LF text)))"
proof (cases "failed (fst (exec env priming (world s)))")
  case True
  then have "issued (snd (restore env filePath s)) = issued s @ priming #
      take 0 (map (\<lambda>rule. js ''sudo ufw '' @ trim rule)
                (filter (\<lambda>rule. trim rule \<noteq> []) (String_split LF text)))"
    by (simp add: restore_priming_failed)
  then show ?thesis by blast
next
  case False
  let ?s1 = "\<lparr>world = snd (exec env priming (world s)), issued = issued s @ [priming]\<rparr>"
  obtain k where k: "issued (snd (restore_loop env (String_split LF text) ?s1)) =
     issued ?s1 @ take k (map (\<lambda>rule. js ''sudo ufw '' @ trim rule)
                          (filter (\<lambda>rule. trim rule \<noteq> []) (String_split LF text)))"
    using restore_loop_issued_prefix by blast
  have "issued (snd (restore env filePath s)) =
      issued (snd (restore_loop env (String_split LF text) ?s1))"
    using False assms by (simp add: restore_after_priming split: prod.splits sum.splits)
  with k show ?thesis by auto
qed

lemma restore_loop_commands_ok:
  "commands_succeed env
     (map (\<lambda>rule. js ''sudo ufw '' @ trim rule) (filter (\<lambda>rule. trim rule \<noteq> []) backupRules))
     (world s) \<Longrightarrow>
   restore_loop env backupRules s =
     (Inr (),
      \<lparr>world = world_after env
         (map (\<lambda>rule. js ''sudo ufw '' @ trim rule)
            (filter (\<lambda>rule. trim rule \<noteq> []) backupRules)) (world s),
       issued = issued s @
         map (\<lambda>rule. js ''sudo ufw '' @ trim rule)
           (filter (\<lambda>rule. trim rule \<noteq> []) backupRules)\<rparr>)"
proof (induction backupRules arbitrary: s)
  case Nil
  show ?case by simp
next
  case (Cons rule backupRules)
  show ?case
  proof (cases "trim rule = []")
    case True
    with Cons show ?thesis by simp
  next
    case False
    obtain out w' where e: "exec env (js ''sudo ufw '' @ trim rule) (world s) = (out, w')"
      by (cases "exec env (js ''sudo ufw '' @ trim rule) (world s)")
    let ?s1 = "\<lparr>world = w', issued = issued s @ [js ''sudo ufw '' @ trim rule]\<rparr>"
    from Cons.prems False e have ok: "\<not> failed out"
      and rest: "commands_succeed env
        (map (\<lambda>rule. js ''sudo ufw '' @ trim rule)
           (filter (\<lambda>rule. trim rule \<noteq> []) backupRules)) (world ?s1)"
      by simp_all
    from False e ok have "restore_loop env (rule # backupRules) s = restore_loop env backupRules ?s1"
      by (simp add: runCommand_def)
    with Cons.IH [OF rest] False e show ?thesis
      by simp
  qed
qed

lemma restore_commands_ok:
  assumes "\<not> failed (fst (exec env priming (world s)))"
    and "readFileSync env filePath (snd (exec env priming (world s))) = Some text"
    and "commands_succeed env
      (map (\<lambda>rule. js ''sudo ufw '' @ trim rule)
         (filter (\<lambda>rule. trim rule \<noteq> []) (String_split LF text)))
      (snd (exec env priming (world s)))"
  shows "restore env filePath s =
     (Inr \<lparr>res_status = js ''success'', res_rule = None, res_action = js ''restore'',
           res_message = js ''Restored from '' @ filePath @ js ''.''\<rparr>,
      \<lparr>world = world_after env
         (map (\<lambda>rule. js ''sudo ufw '' @ trim rule)
            (filter (\<lambda>rule. trim rule \<noteq> []) (String_split LF text)))
         (snd (exec env priming (world s))),
       issued = issued s @ priming #
         map (\<lambda>rule. js ''sudo ufw '' @ trim rule)
           (filter (\<lambda>rule. trim rule \<noteq> []) (String_split LF text))\<rparr>)"
proof -
  let ?s1 = "\<lparr>world = snd (exec env priming (world s)), issued = issued s @ [priming]\<rparr>"
  from assms(3) have "commands_succeed env
      (map (\<lambda>rule. js ''sudo ufw '' @ trim rule)
         (filter (\<lambda>rule. trim rule \<noteq> []) (String_split LF text))) (world ?s1)"
    by simp
  from restore_loop_commands_ok [OF this] show ?thesis
    by (simp add: restore_after_priming [OF assms(1)] assms(2))
qed

text \<open>
  C6. Once the backup file has been read, the commands that \<^verbatim>\<open>restore\<close> issues after the
  priming command are, in file order, the commands of the lines whose trimmed text is not
  empty, each \<^verbatim>\<open>sudo ufw\<close> followed by the trimmed line: always an initial part of them,
  and, when the executor fails neither on the priming command nor on any of them run in
  turn, all of them, and \<^verbatim>\<open>restore\<close> returns its result. For the lines "allow 80/tcp",
  "", "  deny 22  " and "reject 443" these are the three commands of the non-blank lines.
\<close>

theorem restore_issues_each_nonblank_line:
  assumes "readFileSync env filePath (snd (exec env priming (world s))) = Some text"
  shows
    "(\<exists>k. issued (snd (restore env filePath s)) =
        issued s @ priming #
          take k (map (\<lambda>rule. js ''sudo ufw '' @ trim rule)
                    (filter (\<lambda>rule. trim rule \<noteq> []) (String_split LF text)))) \<and>
     (\<not> failed (fst (exec env priming (world s))) \<and>
      commands_succeed env
        (map (\<lambda>rule. js ''sudo ufw '' @ trim rule)
           (filter (\<lambda>rule. trim rule \<noteq> []) (String_split LF text)))
        (snd (exec env priming (world s))) \<longrightarrow>
        restore env filePath s =
          (Inr \<lparr>res_status = js ''success'', res_rule = None, res_action = js ''restore'',
                res_message = js ''Restored from '' @ filePath @ js ''.''\<rparr>,
           \<lparr>world = world_after env
              (map (\<lambda>rule. js ''sudo ufw '' @ trim rule)
                 (filter (\<lambda>rule. trim rule \<noteq> []) (String_split LF text)))
              (snd (exec env priming (world s))),
            issued = issued s @ priming #
              map (\<lambda>rule. js ''sudo ufw '' @ trim rule)
                (filter (\<lambda>rule. trim rule \<noteq> []) (String_split LF text))\<rparr>)) \<and>
     (String_split LF text = [js ''allow 80/tcp'', [], js ''  deny 22  '', js ''reject 443''] \<and>
      \<not> failed (fst (exec env priming (world s))) \<and>
      commands_succeed env
        [js ''sudo ufw allow 80/tcp'', js ''sudo ufw deny 22'', js ''sudo ufw reject 443'']
        (snd (exec env priming (world s))) \<longrightarrow>
        fst (restore env filePath s) =
          Inr \<lparr>res_status = js ''success'', res_rule = None, res_action = js ''restore'',
               res_message = js ''Restored from '' @ filePath @ js ''.''\<rparr> \<and>
        issued (snd (restore env filePath s)) = issued s @
          [priming, js ''sudo ufw allow 80/tcp'', js ''sudo ufw deny 22'', js ''sudo ufw reject 443''])"
proof (intro conjI impI)
  show "\<exists>k. issued (snd (restore env filePath s)) =
        issued s @ priming #
          take k (map (\<lambda>rule. js ''sudo ufw '' @ trim rule)
                    (filter (\<lambda>rule. trim rule \<noteq> []) (String_split LF text)))"
    using assms by (rule restore_issued_prefix)
next
  assume "\<not> failed (fst (exec env priming (world s))) \<and>
      commands_succeed env
        (map (\<lambda>rule. js ''sudo ufw '' @ trim rule)
           (filter (\<lambda>rule. trim rule \<noteq> []) (String_split LF text)))
        (snd (exec env priming (world s)))"
  then show "restore env filePath s =
          (Inr \<lparr>res_status = js ''success'', res_rule = None, res_action = js ''restore'',
                res_message = js ''Restored from '' @ filePath @ js ''.''\<rparr>,
           \<lparr>world = world_after env
              (map (\<lambda>rule. js ''sudo ufw '' @ trim rule)
                 (filter (\<lambda>rule. trim rule \<noteq> []) (String_split LF text)))
              (snd (exec env priming (world s))),
            issued = issued s @ priming #
              map (\<lambda>rule. js ''sudo ufw '' @ trim rule)
                (filter (\<lambda>rule. trim rule \<noteq> []) (String_split LF text))\<rparr>)"
    using restore_commands_ok [OF _ assms] by blast
next
  assume a: "String_split LF text = [js ''allow 80/tcp'', [], js ''  deny 22  '', js ''reject 443''] \<and>
      \<not> failed (fst (exec env priming (world s))) \<and>
      commands_succeed env
        [js ''sudo ufw allow 80/tcp'', js ''sudo ufw deny 22'', js ''sudo ufw reject 443'']
        (snd (exec env priming (world s)))"
  have cmds: "map (\<lambda>rule. js ''sudo ufw '' @ trim rule)
          (filter (\<lambda>rule. trim rule \<noteq> [])
             [js ''allow 80/tcp'', [], js ''  deny 22  '', js ''reject 443'']) =
        [js ''sudo ufw allow 80/tcp'', js ''sudo ufw deny 22'', js ''sudo ufw reject 443'']"
    by code_simp
  from a have sp: "String_split LF text =
      [js ''allow 80/tcp'', [], js ''  deny 22  '', js ''reject 443'']"
    and ok: "\<not> failed (fst (exec env priming (world s)))"
    and all: "commands_succeed env
        [js ''sudo ufw allow 80/tcp'', js ''sudo ufw deny 22'', js ''sudo ufw reject 443'']
        (snd (exec env priming (world s)))"
    by blast+
  from all have "commands_succeed env
      (map (\<lambda>rule. js ''sudo ufw '' @ trim rule)
         (filter (\<lambda>rule. trim rule \<noteq> []) (String_split LF text)))
      (snd (exec env priming (world s)))"
    by (simp only: sp cmds)
  from restore_commands_ok [OF ok assms this]
  have r: "restore env filePath s =
     (Inr \<lparr>res_status = js ''success'', res_rule = None, res_action = js ''restore'',
           res_message = js ''Restored from '' @ filePath @ js ''.''\<rparr>,
      \<lparr>world = world_after env
         [js ''sudo ufw allow 80/tcp'', js ''sudo ufw deny 22'', js ''sudo ufw reject 443'']
         (snd (exec env priming (world s))),
       issued = issued s @ priming #
         [js ''sudo ufw allow 80/tcp'', js ''sudo ufw deny 22'', js ''sudo ufw reject 443'']\<rparr>)"
    by (simp only: sp cmds)
  show "fst (restore env filePath s) =
          Inr \<lparr>res_status = js ''success'', res_rule = None, res_action = js ''restore'',
               res_message = js ''Restored from '' @ filePath @ js ''.''\<rparr>"
    by (simp only: r fst_conv)
  show "issued (snd (restore env filePath s)) = issued s @
          [priming, js ''sudo ufw allow 80/tcp'', js ''sudo ufw deny 22'', js ''sudo ufw reject 443'']"
    by (simp only: r snd_conv sys.simps)
qed

theorem restore_issues_each_nonblank_line_witness:
  "String_split LF example_backup = [js ''allow 80/tcp'', [], js ''  deny 22  '', js ''reject 443''] \<and>
   failed (fst (exec intact (js ''sudo ufw status'') ())) \<and>
   restore intact (js ''backup.rules'') boot =
     (Inr \<lparr>res_status = js ''success'', res_rule = None, res_action = js ''restore'',
           res_message = js ''Restored from backup.rules.''\<rparr>,
      \<lparr>world = (),
       issued = [priming, js ''sudo ufw allow 80/tcp'', js ''sudo ufw deny 22'',
                 js ''sudo ufw reject 443'']\<rparr>)"
proof -
  have rd: "readFileSync intact (js ''backup.rules'') (snd (exec intact priming (world boot))) =
      Some example_backup"
    by code_simp
  have sp: "String_split LF example_backup =
      [js ''allow 80/tcp'', [], js ''  deny 22  '', js ''reject 443'']"
    by code_simp
  have cmds: "map (\<lambda>rule. js ''sudo ufw '' @ trim rule)
          (filter (\<lambda>rule. trim rule \<noteq> []) (String_split LF example_backup)) =
        [js ''sudo ufw allow 80/tcp'', js ''sudo ufw deny 22'', js ''sudo ufw reject 443'']"
    by code_simp
  have ok: "\<not> failed (fst (exec intact priming (world boot)))"
    by code_simp
  have all: "commands_succeed intact
      [js ''sudo ufw allow 80/tcp'', js ''sudo ufw deny 22'', js ''sudo ufw reject 443'']
      (snd (exec intact priming (world boot)))"
    by code_simp
  have fallible: "failed (fst (exec intact (js ''sudo ufw status'') ()))"
    by code_simp
  have msg: "js ''Restored from '' @ js ''backup.rules'' @ js ''.'' = js ''Restored from backup.rules.''"
    by (simp add: js_def)
  note t = restore_issues_each_nonblank_line [OF rd]
  have all': "commands_succeed intact
      (map (\<lambda>rule. js ''sudo ufw '' @ trim rule)
         (filter (\<lambda>rule. trim rule \<noteq> []) (String_split LF example_backup)))
      (snd (exec intact priming (world boot)))"
    using all by (simp only: cmds)
  from t [THEN conjunct2, THEN conjunct1, rule_format, OF conjI, OF ok all']
  have r: "restore intact (js ''backup.rules'') boot =
     (Inr \<lparr>res_status = js ''success'', res_rule = None, res_action = js ''restore'',
           res_message = js ''Restored from backup.rules.''\<rparr>,
      \<lparr>world = (),
       issued = [priming, js ''sudo ufw allow 80/tcp'', js ''sudo ufw deny 22'',
                 js ''sudo ufw reject 443'']\<rparr>)"
    by (simp add: cmds msg boot_def)
  from t [THEN conjunct2, THEN conjunct2, rule_format, OF conjI, OF sp conjI, OF ok all]
  have "issued (snd (restore intact (js ''backup.rules'') boot)) =
      [priming, js ''sudo ufw allow 80/tcp'', js ''sudo ufw deny 22'', js ''sudo ufw reject 443'']"
    by (simp add: boot_def)
  with r sp fallible show ?thesis
    by simp
qed

text \<open>
  C7. For a backup file with three non-blank lines, when the priming command and the
  command of the first line succeed and the executor fails on the command of the second,
  \<^verbatim>\<open>restore\<close> is rejected with "Error: " followed by the executor's standard error, and
  the commands issued are the priming command and those of the first two lines.
\<close>

theorem restore_stops_at_second_failure:
  assumes "exec env priming (world s) = (o0, w1)" and "\<not> failed o0"
    and "readFileSync env filePath w1 = Some text"
    and "filter (\<lambda>rule. trim rule \<noteq> []) (String_split LF text) = [l1, l2, l3]"
    and "exec env (js ''sudo ufw '' @ trim l1) w1 = (o1, w2)" and "\<not> failed o1"
    and "exec env (js ''sudo ufw '' @ trim l2) w2 = (o2, w3)" and "failed o2"
  shows "restore env filePath s =
     (Inl (Rejected (js ''Error: '' @ stderr o2)),
      \<lparr>world = w3,
       issued = issued s @ [priming, js ''sudo ufw '' @ trim l1, js ''sudo ufw '' @ trim l2]\<rparr>)"
proof -
  let ?s1 = "\<lparr>world = w1, issued = issued s @ [priming]\<rparr>"
  have "l1 \<in> set (filter (\<lambda>rule. trim rule \<noteq> []) (String_split LF text))"
    and "l2 \<in> set (filter (\<lambda>rule. trim rule \<noteq> []) (String_split LF text))"
    by (simp_all only: assms(4)) simp_all
  then have nb: "trim l1 \<noteq> []" "trim l2 \<noteq> []"
    by simp_all
  have "restore_loop env (String_split LF text) ?s1 = restore_loop env [l1, l2, l3] ?s1"
    by (subst restore_loop_nonblank) (simp only: assms(4))
  also have "\<dots> = (Inl (Rejected (js ''Error: '' @ stderr o2)),
      \<lparr>world = w3,
       issued = issued s @ [priming, js ''sudo ufw '' @ trim l1, js ''sudo ufw '' @ trim l2]\<rparr>)"
    using nb assms(5-8) by (simp add: runCommand_def)
  finally show ?thesis
    using assms(1-3) by (simp add: restore_def runCommand_def)
qed

theorem restore_stops_at_second_failure_witness:
  "filter (\<lambda>rule. trim rule \<noteq> []) (String_split LF example_backup) =
     [js ''allow 80/tcp'', js ''  deny 22  '', js ''reject 443''] \<and>
   restore faulty (js ''backup.rules'') boot =
     (Inl (Rejected (js ''Error: ERROR: problem running'')),
      \<lparr>world = (), issued = [priming, js ''sudo ufw allow 80/tcp'', js ''sudo ufw deny 22'']\<rparr>)"
proof -
  have e0: "exec faulty priming (world boot) =
      (ok (js ''Resetting all rules to installed defaults'' @ [LF]), ())"
    by code_simp
  have ok0: "\<not> failed (ok (js ''Resetting all rules to installed defaults'' @ [LF]))"
    and ok1: "\<not> failed (ok (js ''Rule added'' @ [LF]))"
    and bad: "failed \<lparr>failed = True, stdout = [], stderr = js ''ERROR: problem running''\<rparr>"
    by (simp_all add: ok_def)
  have rd: "readFileSync faulty (js ''backup.rules'') () = Some example_backup"
    by code_simp
  have ls: "filter (\<lambda>rule. trim rule \<noteq> []) (String_split LF example_backup) =
     [js ''allow 80/tcp'', js ''  deny 22  '', js ''reject 443'']"
    by code_simp
  have c1: "js ''sudo ufw '' @ trim (js ''allow 80/tcp'') = js ''sudo ufw allow 80/tcp''"
    and c2: "js ''sudo ufw '' @ trim (js ''  deny 22  '') = js ''sudo ufw deny 22''"
    by code_simp+
  have e1: "exec faulty (js ''sudo ufw '' @ trim (js ''allow 80/tcp'')) () =
      (ok (js ''Rule added'' @ [LF]), ())"
    and e2: "exec faulty (js ''sudo ufw '' @ trim (js ''  deny 22  '')) () =
      (\<lparr>failed = True, stdout = [], stderr = js ''ERROR: problem running''\<rparr>, ())"
    by code_simp+
  have err: "js ''Error: '' @ js ''ERROR: problem running'' = js ''Error: ERROR: problem running''"
    by (simp add: js_def)
  show ?thesis
    using restore_stops_at_second_failure [OF e0 ok0 rd ls e1 ok1 e2 bad] ls
    by (simp add: c1 c2 err boot_def)
qed

text \<open>
  C8. When the backup file cannot be read, \<^verbatim>\<open>restore\<close> has issued the priming command
  (reset, then allow from any) and nothing else, the machine is in the state that command
  left, and the read failure is what \<^verbatim>\<open>restore\<close> throws when the priming command succeeded.
\<close>

theorem restore_resets_before_reading:
  assumes "readFileSync env filePath (snd (exec env priming (world s))) = None"
  shows "issued (snd (restore env filePath s)) = issued s @ [priming] \<and>
     world (snd (restore env filePath s)) = snd (exec env priming (world s)) \<and>
     (\<not> failed (fst (exec env priming (world s))) \<longrightarrow>
        fst (restore env filePath s) = Inl (ReadFailure filePath))"
proof (cases "failed (fst (exec env priming (world s)))")
  case True
  then show ?thesis by (simp add: restore_priming_failed)
next
  case False
  then show ?thesis by (simp add: restore_after_priming assms)
qed

theorem restore_resets_before_reading_witness:
  "readFileSync (scripted [(priming, ok [])] []) (js ''missing.rules'') () = None \<and>
   fst (restore (scripted [(priming, ok [])] []) (js ''missing.rules'') boot) =
     Inl (ReadFailure (js ''missing.rules'')) \<and>
   issued (snd (restore (scripted [(priming, ok [])] []) (js ''missing.rules'') boot)) = [priming]"
proof -
  let ?env = "scripted [(priming, ok [])] []"
  have rd: "readFileSync ?env (js ''missing.rules'') (snd (exec ?env priming (world boot))) = None"
    by (simp add: scripted_def)
  have ok: "\<not> failed (fst (exec ?env priming (world boot)))"
    by (simp add: scripted_def ok_def)
  have rd': "readFileSync ?env (js ''missing.rules'') () = None"
    by (simp add: scripted_def)
  show ?thesis
    using restore_resets_before_reading [OF rd] ok rd' by (simp add: boot_def)
qed

end
